theory Spec2Isabelle
  imports Complex_Main "HOL-Library.Log_Nat"
begin

section \<open>JavaScript values used by \<^verbatim>\<open>main.mjs\<close>\<close>

subsection \<open>Errors\<close>

text \<open>
  A thrown value. \<^verbatim>\<open>SystemError c\<close> is an error of Node's file-system layer whose
  \<^verbatim>\<open>code\<close> property is \<open>c\<close> (\<^verbatim>\<open>'ENOENT'\<close>, \<^verbatim>\<open>'EACCES'\<close>, ...); the other errors have no
  \<^verbatim>\<open>code\<close> property.
\<close>

datatype js_error = TypeError string | SyntaxError string | SystemError string | OtherError string

fun error_code :: "js_error \<Rightarrow> string option" where
  "error_code (SystemError c) = Some c"
| "error_code _ = None"

subsection \<open>Numbers\<close>

text \<open>
  A JavaScript Number is an IEEE 754 binary64 value. A finite one is modelled by the
  rational it denotes; every arithmetic result is rounded to the nearest binary64 value,
  ties to even, by \<open>round64\<close>. The two zeros are one value here: the program never tells them
  apart (\<^verbatim>\<open>-0 || 0\<close> is \<^verbatim>\<open>0\<close>, and \<^verbatim>\<open>toFixed\<close> works on the mathematical value).
\<close>

datatype number = Finite rat | PosInfinity | NegInfinity | NaN

definition pow2 :: "int \<Rightarrow> rat" where
  "pow2 e = (if 0 \<le> e then 2 ^ nat e else 1 / 2 ^ nat (- e))"

definition ilog2 :: "rat \<Rightarrow> int" where
  \<comment> \<open>for \<open>0 < q\<close>: the exponent \<open>e\<close> with \<open>2\<^sup>e \<le> q < 2\<^sup>e\<^sup>+\<^sup>1\<close>\<close>
  "ilog2 q = (if 1 \<le> q then bitlen \<lfloor>q\<rfloor> - 1 else - bitlen (\<lceil>1 / q\<rceil> - 1))"

definition round_ties_even :: "rat \<Rightarrow> int" where
  "round_ties_even x =
     (let f = \<lfloor>x\<rfloor>; d = x - of_int f
      in if d < 1 / 2 then f else if 1 / 2 < d then f + 1 else if even f then f else f + 1)"

definition round64 :: "rat \<Rightarrow> number" where
  "round64 q =
     (if q = 0 then Finite 0
      else
        let a = \<bar>q\<bar>;
            e = max (ilog2 a) (- 1022);
            ulp = pow2 (e - 52);
            r = of_int (round_ties_even (a / ulp)) * ulp
        in if pow2 1024 \<le> r then (if q < 0 then NegInfinity else PosInfinity)
           else Finite (if q < 0 then - r else r))"

fun num_mul :: "number \<Rightarrow> number \<Rightarrow> number" where
  "num_mul (Finite x) (Finite y) = round64 (x * y)"
| "num_mul NaN _ = NaN"
| "num_mul _ NaN = NaN"
| "num_mul (Finite x) PosInfinity = (if x = 0 then NaN else if 0 < x then PosInfinity else NegInfinity)"
| "num_mul (Finite x) NegInfinity = (if x = 0 then NaN else if 0 < x then NegInfinity else PosInfinity)"
| "num_mul PosInfinity (Finite y) = (if y = 0 then NaN else if 0 < y then PosInfinity else NegInfinity)"
| "num_mul NegInfinity (Finite y) = (if y = 0 then NaN else if 0 < y then NegInfinity else PosInfinity)"
| "num_mul PosInfinity PosInfinity = PosInfinity"
| "num_mul NegInfinity NegInfinity = PosInfinity"
| "num_mul PosInfinity NegInfinity = NegInfinity"
| "num_mul NegInfinity PosInfinity = NegInfinity"

fun num_sub :: "number \<Rightarrow> number \<Rightarrow> number" where
  "num_sub (Finite x) (Finite y) = round64 (x - y)"
| "num_sub NaN _ = NaN"
| "num_sub _ NaN = NaN"
| "num_sub PosInfinity PosInfinity = NaN"
| "num_sub NegInfinity NegInfinity = NaN"
| "num_sub PosInfinity _ = PosInfinity"
| "num_sub NegInfinity _ = NegInfinity"
| "num_sub (Finite x) PosInfinity = NegInfinity"
| "num_sub (Finite x) NegInfinity = PosInfinity"

text \<open>\<^verbatim>\<open>score || 0\<close>: a missing score (\<^verbatim>\<open>undefined\<close>, \<^verbatim>\<open>null\<close>) and the falsy numbers
  \<^verbatim>\<open>0\<close> and \<^verbatim>\<open>NaN\<close> give \<^verbatim>\<open>0\<close>.\<close>

fun or_zero :: "number option \<Rightarrow> number" where
  "or_zero None = Finite 0"
| "or_zero (Some NaN) = Finite 0"
| "or_zero (Some (Finite x)) = (if x = 0 then Finite 0 else Finite x)"
| "or_zero (Some n) = n"

subsection \<open>\<^verbatim>\<open>Number.prototype.toFixed\<close>\<close>

definition digit_char :: "int \<Rightarrow> char" where
  "digit_char d = ''0123456789'' ! nat d"

function decimal :: "int \<Rightarrow> string" where
  "decimal n = (if n < 10 then [digit_char n] else decimal (n div 10) @ [digit_char (n mod 10)])"
  by pat_completeness auto
termination
  by (relation "measure nat") auto

declare decimal.simps [simp del]

text \<open>
  \<^verbatim>\<open>x.toFixed(f)\<close>, following the steps of ECMAScript: a non-finite number prints as
  \<^verbatim>\<open>ToString\<close> gives it; otherwise the sign is split off, \<open>n\<close> is the integer nearest to
  \<open>x \<sqdot> 10\<^sup>f\<close> (the larger one of two), its decimal digits are padded with zeros to
  \<open>f + 1\<close> characters and the point is put before the last \<open>f\<close>. A magnitude of
  \<open>10\<^sup>2\<^sup>1\<close> and more prints by \<^verbatim>\<open>ToString\<close>, which is the parameter \<open>toString\<close>.
\<close>

definition toFixed :: "(rat \<Rightarrow> string) \<Rightarrow> number \<Rightarrow> nat \<Rightarrow> string" where
  "toFixed toString x f =
     (case x of
        NaN \<Rightarrow> ''NaN''
      | PosInfinity \<Rightarrow> ''Infinity''
      | NegInfinity \<Rightarrow> ''-Infinity''
      | Finite q \<Rightarrow>
          let s = (if q < 0 then ''-'' else '''');
              a = \<bar>q\<bar>
          in if 10 ^ 21 \<le> a then s @ toString a
             else
               let n = \<lfloor>a * 10 ^ f + 1 / 2\<rfloor>;
                   m = decimal n;
                   m = (if f \<noteq> 0 \<and> length m \<le> f then replicate (f + 1 - length m) (CHR ''0'') @ m else m);
                   k = length m
               in if f \<noteq> 0 then s @ take (k - f) m @ ''.'' @ drop (k - f) m else s @ m)"

section \<open>The score differ\<close>

text \<open>
  A report, as far as the program reads it: the \<^verbatim>\<open>categories\<close> object, its own properties
  in the order \<^verbatim>\<open>Object.keys\<close> lists them. A category has a title and a score, which may
  be missing. The \<^verbatim>\<open>Category\<close> of a score difference is the value read at \<^verbatim>\<open>.title\<close>, which
  is \<^verbatim>\<open>undefined\<close> (\<open>None\<close>) when it is read from an object that has no title.
\<close>

record category =
  title :: string
  score :: "number option"

record report =
  categories :: "(string \<times> category) list"

record score_difference =
  Category :: "string option"
  Previous_Score :: string
  Current_Score :: string
  Difference :: string

definition Object_keys :: "('k \<times> 'v) list \<Rightarrow> 'k list" where
  "Object_keys obj = map fst obj"

text \<open>\<^verbatim>\<open>Array.prototype.map\<close> with a callback that may throw: the first throw ends the call.\<close>

fun array_map :: "('a \<Rightarrow> js_error + 'b) \<Rightarrow> 'a list \<Rightarrow> js_error + 'b list" where
  "array_map f [] = Inr []"
| "array_map f (x # xs) =
     (case f x of
        Inl e \<Rightarrow> Inl e
      | Inr y \<Rightarrow> (case array_map f xs of Inl e \<Rightarrow> Inl e | Inr ys \<Rightarrow> Inr (y # ys)))"

text \<open>
  The value of \<^verbatim>\<open>obj[key]\<close> for an object literal or an object that \<^verbatim>\<open>JSON.parse\<close> made:
  the own property of that name when there is one; otherwise the property the object
  inherits from \<^verbatim>\<open>Object.prototype\<close>, when \<^verbatim>\<open>key\<close> is one of the twelve names defined there
  (each of them a function, or for \<^verbatim>\<open>__proto__\<close> the prototype object itself); otherwise
  \<^verbatim>\<open>undefined\<close>.
\<close>

definition Object_prototype :: "string list" where
  "Object_prototype =
     [''constructor'', ''__defineGetter__'', ''__defineSetter__'', ''hasOwnProperty'',
      ''__lookupGetter__'', ''__lookupSetter__'', ''isPrototypeOf'', ''propertyIsEnumerable'',
      ''toString'', ''valueOf'', ''__proto__'', ''toLocaleString'']"

datatype 'v property = Own 'v | Inherited | Undefined

definition property_of :: "(string \<times> 'v) list \<Rightarrow> string \<Rightarrow> 'v property" where
  "property_of obj key =
     (case map_of obj key of
        Some v \<Rightarrow> Own v
      | None \<Rightarrow> if key \<in> set Object_prototype then Inherited else Undefined)"

text \<open>
  Reading a member (\<^verbatim>\<open>.title\<close>, \<^verbatim>\<open>.score\<close>) of such a value: the field of an own category;
  \<^verbatim>\<open>undefined\<close> on an inherited function or prototype object, which has no such member; a
  TypeError on \<^verbatim>\<open>undefined\<close>.
\<close>

definition member_of :: "('v \<Rightarrow> 'a option) \<Rightarrow> 'v property \<Rightarrow> js_error + 'a option" where
  "member_of field p =
     (case p of
        Own v \<Rightarrow> Inr (field v)
      | Inherited \<Rightarrow> Inr None
      | Undefined \<Rightarrow> Inl (TypeError ''Cannot read properties of undefined''))"

text \<open>The callback of \<^verbatim>\<open>calculateScoreDifferences\<close> (lines 63 to 74).\<close>

definition score_difference_of ::
  "(rat \<Rightarrow> string) \<Rightarrow> report \<Rightarrow> report \<Rightarrow> string \<Rightarrow> js_error + score_difference" where
  "score_difference_of toString previousResult currentResult categoryId =
     (case member_of (\<lambda>c. Some (title c)) (property_of (categories currentResult) categoryId) of
        Inl e \<Rightarrow> Inl e
      | Inr categoryTitle \<Rightarrow>
          (case member_of score (property_of (categories previousResult) categoryId) of
             Inl e \<Rightarrow> Inl e
           | Inr previous \<Rightarrow>
               (case member_of score (property_of (categories currentResult) categoryId) of
                  Inl e \<Rightarrow> Inl e
                | Inr current \<Rightarrow>
                    let previousScore = num_mul (or_zero previous) (Finite 100);
                        currentScore = num_mul (or_zero current) (Finite 100);
                        difference = num_sub currentScore previousScore
                    in Inr \<lparr> Category = categoryTitle,
                             Previous_Score = toFixed toString previousScore 2,
                             Current_Score = toFixed toString currentScore 2,
                             Difference = toFixed toString difference 2 \<rparr>)))"

definition calculateScoreDifferences ::
  "(rat \<Rightarrow> string) \<Rightarrow> report \<Rightarrow> report \<Rightarrow> js_error + score_difference list" where
  "calculateScoreDifferences toString previousResult currentResult =
     array_map (score_difference_of toString previousResult currentResult)
       (Object_keys (categories currentResult))"

subsection \<open>The data model of the specification\<close>

text \<open>
  A score of the data model is missing or a number between 0 and 1. \<open>scaled\<close> is the
  expression \<^verbatim>\<open>(score || 0) * 100\<close> of lines 65 and 66. \<open>fixed2\<close> is the display
  format the specification asks for: the value rounded to hundredths, as sign, integer
  digits, a point and two digits; \<open>two_decimals\<close> recognises such strings.
\<close>

definition unit_score :: "number option \<Rightarrow> bool" where
  "unit_score s = (case s of None \<Rightarrow> True | Some (Finite q) \<Rightarrow> 0 \<le> q \<and> q \<le> 1 | Some _ \<Rightarrow> False)"

definition unit_scores :: "report \<Rightarrow> bool" where
  "unit_scores r = list_all (\<lambda>kc. unit_score (score (snd kc))) (categories r)"

definition scaled :: "number option \<Rightarrow> number" where
  "scaled s = num_mul (or_zero s) (Finite 100)"

definition is_digit :: "char \<Rightarrow> bool" where
  "is_digit c = (c \<in> set ''0123456789'')"


definition fixed2 :: "rat \<Rightarrow> string" where
  "fixed2 q =
     (let n = \<lfloor>\<bar>q\<bar> * 100 + 1 / 2\<rfloor>
      in (if q < 0 then ''-'' else '''') @ decimal (n div 100) @ ''.'' @
         [digit_char (n div 10 mod 10), digit_char (n mod 10)])"

section \<open>File names and paths\<close>

subsection \<open>The name of a report file\<close>

text \<open>
  Lines 51 and 97: \<^verbatim>\<open>url.replace(/https?:\/\//, '').replace(/\//g, '_')\<close>. The first
  \<^verbatim>\<open>replace\<close> has no \<^verbatim>\<open>g\<close> flag and no anchor: it removes the leftmost match of the
  regular expression, wherever it starts. At one position at most one of \<^verbatim>\<open>http://\<close> and
  \<^verbatim>\<open>https://\<close> matches; \<open>scheme_match\<close> gives the length of the match at the start of a
  string. The second \<^verbatim>\<open>replace\<close> has the \<^verbatim>\<open>g\<close> flag and replaces every slash.
\<close>

definition starts_with :: "string \<Rightarrow> string \<Rightarrow> bool" where
  "starts_with p s = (take (length p) s = p)"

definition scheme_match :: "string \<Rightarrow> nat option" where
  "scheme_match s =
     (if starts_with ''http://'' s then Some 7
      else if starts_with ''https://'' s then Some 8
      else None)"

fun replace_scheme :: "string \<Rightarrow> string" where
  "replace_scheme [] = []"
| "replace_scheme (c # cs) =
     (case scheme_match (c # cs) of
        Some n \<Rightarrow> drop n (c # cs)
      | None \<Rightarrow> c # replace_scheme cs)"

definition replace_slashes :: "string \<Rightarrow> string" where
  "replace_slashes s = map (\<lambda>c. if c = CHR ''/'' then CHR ''_'' else c) s"

definition fileNameBase :: "string \<Rightarrow> string" where
  "fileNameBase url = replace_slashes (replace_scheme url)"

text \<open>
  The mapping in the words of section 6 of the specification, for comparison: the leading
  \<^verbatim>\<open>http://\<close> or \<^verbatim>\<open>https://\<close> stripped, every slash replaced.
\<close>

definition spec_urlAsFilename :: "string \<Rightarrow> string" where
  "spec_urlAsFilename url =
     replace_slashes
       (if starts_with ''http://'' url then drop 7 url
        else if starts_with ''https://'' url then drop 8 url
        else url)"

subsection \<open>Node's \<^verbatim>\<open>path\<close> module (POSIX)\<close>

text \<open>
  \<^verbatim>\<open>path.join\<close> and \<^verbatim>\<open>path.dirname\<close> as Node defines them for POSIX paths. \<^verbatim>\<open>join\<close> puts
  a slash between its non-empty arguments and normalizes: empty segments and \<^verbatim>\<open>.\<close> are
  dropped, \<^verbatim>\<open>..\<close> removes the segment before it (or stays, in a relative path, when there is
  none), a trailing slash is kept. \<^verbatim>\<open>dirname\<close> cuts the path before the slash that precedes
  its last segment.
\<close>

fun split_slash :: "string \<Rightarrow> string list" where
  "split_slash [] = [[]]"
| "split_slash (c # cs) =
     (if c = CHR ''/'' then [] # split_slash cs
      else (case split_slash cs of [] \<Rightarrow> [[c]] | s # ss \<Rightarrow> (c # s) # ss))"

fun join_slash :: "string list \<Rightarrow> string" where
  "join_slash [] = []"
| "join_slash [s] = s"
| "join_slash (s # t # ss) = s @ CHR ''/'' # join_slash (t # ss)"

fun normalizeString :: "bool \<Rightarrow> string list \<Rightarrow> string list \<Rightarrow> string list" where
  "normalizeString allowAboveRoot res [] = res"
| "normalizeString allowAboveRoot res (seg # segs) =
     (if seg = [] \<or> seg = ''.'' then normalizeString allowAboveRoot res segs
      else if seg = ''..'' then
        (if res \<noteq> [] \<and> last res \<noteq> ''..'' then normalizeString allowAboveRoot (butlast res) segs
         else if allowAboveRoot then normalizeString allowAboveRoot (res @ [''..'']) segs
         else normalizeString allowAboveRoot res segs)
      else normalizeString allowAboveRoot (res @ [seg]) segs)"

definition path_normalize :: "string \<Rightarrow> string" where
  "path_normalize p =
     (if p = [] then ''.''
      else
        let isAbsolute = (hd p = CHR ''/'');
            trailingSeparator = (last p = CHR ''/'');
            q = join_slash (normalizeString (\<not> isAbsolute) [] (split_slash p))
        in if q = [] then (if isAbsolute then ''/'' else if trailingSeparator then ''./'' else ''.'')
           else
             let q = (if trailingSeparator then q @ ''/'' else q)
             in if isAbsolute then CHR ''/'' # q else q)"

definition path_join :: "string list \<Rightarrow> string" where
  "path_join args =
     (let joined = filter (\<lambda>arg. arg \<noteq> []) args
      in if joined = [] then ''.'' else path_normalize (join_slash joined))"

definition path_dirname :: "string \<Rightarrow> string" where
  "path_dirname p =
     (if p = [] then ''.''
      else
        let hasRoot = (hd p = CHR ''/'');
            r = dropWhile (\<lambda>c. c \<noteq> CHR ''/'') (dropWhile (\<lambda>c. c = CHR ''/'') (rev (tl p)));
            end = length r
        in if r = [] then (if hasRoot then ''/'' else ''.'')
           else if hasRoot \<and> end = 1 then ''//''
           else take end p)"

section \<open>The environment of an invocation\<close>

text \<open>
  What the program does not compute itself is a parameter \<open>env\<close> of the model: the clock,
  the file system, the browser and the audit engine act on a state of the world \<open>'w\<close> that
  is left open. Reads look at the world, writes and audits change it, and each may fail with
  an error. \<^verbatim>\<open>JSON.parse\<close> is taken at the two types the program reads (the configuration
  of section 6 of the specification and a report), \<^verbatim>\<open>JSON.stringify\<close> at reports, and
  \<^verbatim>\<open>Number::toString\<close> is the function \<^verbatim>\<open>toFixed\<close> falls back to.
\<close>

datatype device = Mobile | Desktop

fun device_name :: "device \<Rightarrow> string" where
  "device_name Mobile = ''mobile''"
| "device_name Desktop = ''desktop''"

record local_time =
  getFullYear :: int
  getMonth :: int
  getDate :: int
  getHours :: int
  getMinutes :: int
  getSeconds :: int

record dirent =
  dirent_name :: string
  isDirectory :: bool

record settings =
  formFactor :: device
  throttling :: string
  screenEmulation :: device
  emulatedUserAgent :: device
  output_formats :: "string list"

record runner_result =
  lhr :: report
  report_output :: "string list"

record 'w env =
  Date_now :: "'w \<Rightarrow> local_time"
  fs_readFile :: "'w \<Rightarrow> string \<Rightarrow> js_error + string"
  fs_readdir :: "'w \<Rightarrow> string \<Rightarrow> js_error + dirent list"
  fs_stat_mtime :: "'w \<Rightarrow> string \<Rightarrow> js_error + int"
  fs_mkdir :: "string \<Rightarrow> 'w \<Rightarrow> js_error + 'w"
  fs_writeFile :: "string \<Rightarrow> string \<Rightarrow> 'w \<Rightarrow> js_error + 'w"
  chromeLauncher_launch :: "'w \<Rightarrow> js_error + nat \<times> 'w"
  lighthouse :: "string \<Rightarrow> nat \<Rightarrow> settings \<Rightarrow> 'w \<Rightarrow> js_error + runner_result \<times> 'w"
  chrome_kill :: "nat \<Rightarrow> 'w \<Rightarrow> js_error + 'w"
  JSON_parse_urls :: "string \<Rightarrow> js_error + (string \<times> string list) list"
  JSON_parse_report :: "string \<Rightarrow> js_error + report"
  JSON_stringify :: "report \<Rightarrow> string"
  Number_toString :: "rat \<Rightarrow> string"

text \<open>
  The trace of an invocation: what it prints, the files it reads (with the results) and the
  directories and files it writes, in order. A write that fails leaves no event.
\<close>

datatype event =
    ConsoleLog string
  | ConsoleError string
  | ConsoleErrorValue js_error
  | ConsoleTable "score_difference list"
  | ReadFile string "js_error + string"
  | Mkdir string
  | WriteFile string string

record 'w run_state =
  world :: 'w
  trace :: "event list"

text \<open>
  An \<^verbatim>\<open>async\<close> function is a function of the state that returns its result, or the error
  it throws, and the new state; \<^verbatim>\<open>await\<close> is \<open>io_bind\<close>, which passes a thrown error on.
\<close>

type_synonym ('a, 'w) io = "'w run_state \<Rightarrow> (js_error + 'a) \<times> 'w run_state"

definition io_return :: "'a \<Rightarrow> ('a, 'w) io" where
  "io_return x = (\<lambda>s. (Inr x, s))"

definition io_bind :: "('a, 'w) io \<Rightarrow> ('a \<Rightarrow> ('b, 'w) io) \<Rightarrow> ('b, 'w) io" where
  "io_bind m f = (\<lambda>s. case m s of (Inl e, s') \<Rightarrow> (Inl e, s') | (Inr x, s') \<Rightarrow> f x s')"

definition io_lift :: "js_error + 'a \<Rightarrow> ('a, 'w) io" where
  "io_lift r = (\<lambda>s. (r, s))"

definition io_read :: "('w \<Rightarrow> js_error + 'a) \<Rightarrow> ('a, 'w) io" where
  "io_read g = (\<lambda>s. (g (world s), s))"

definition io_call :: "('w \<Rightarrow> js_error + 'a \<times> 'w) \<Rightarrow> ('a, 'w) io" where
  "io_call g =
     (\<lambda>s. case g (world s) of
             Inl e \<Rightarrow> (Inl e, s)
           | Inr (x, w) \<Rightarrow> (Inr x, s\<lparr>world := w\<rparr>))"

definition io_update :: "('w \<Rightarrow> js_error + 'w) \<Rightarrow> (unit, 'w) io" where
  "io_update g =
     (\<lambda>s. case g (world s) of
             Inl e \<Rightarrow> (Inl e, s)
           | Inr w \<Rightarrow> (Inr (), s\<lparr>world := w\<rparr>))"

definition io_readFile :: "'w env \<Rightarrow> string \<Rightarrow> (string, 'w) io" where
  "io_readFile env filePath =
     (\<lambda>s. let r = fs_readFile env (world s) filePath
          in (r, s\<lparr>trace := trace s @ [ReadFile filePath r]\<rparr>))"

definition emit :: "event \<Rightarrow> (unit, 'w) io" where
  "emit ev = (\<lambda>s. (Inr (), s\<lparr>trace := trace s @ [ev]\<rparr>))"

definition io_write :: "event \<Rightarrow> ('w \<Rightarrow> js_error + 'w) \<Rightarrow> (unit, 'w) io" where
  "io_write ev g = io_bind (io_update g) (\<lambda>_. emit ev)"

fun for_each :: "('a \<Rightarrow> 'b \<Rightarrow> ('b, 'w) io) \<Rightarrow> 'a list \<Rightarrow> 'b \<Rightarrow> ('b, 'w) io" where
  "for_each body [] acc = io_return acc"
| "for_each body (x # xs) acc = io_bind (body x acc) (for_each body xs)"

section \<open>JavaScript objects with inserted keys\<close>

text \<open>
  An object is the list of its own properties in the order \<^verbatim>\<open>Object.keys\<close> gives them:
  array indices first, in numeric order, then the other keys in the order of their
  insertion. \<open>object_set\<close> is the assignment \<^verbatim>\<open>obj[k] = v\<close>; assigning to \<^verbatim>\<open>__proto__\<close>
  creates no own property. \<^verbatim>\<open>obj.hasOwnProperty(k)\<close> is a call of the object's own
  property of that name when the parsed configuration has one.
\<close>

definition digit_value :: "char \<Rightarrow> int" where
  "digit_value c = int (length (takeWhile (\<lambda>d. d \<noteq> c) ''0123456789''))"

definition index_value :: "string \<Rightarrow> int" where
  "index_value k = foldl (\<lambda>n c. 10 * n + digit_value c) 0 k"

definition is_array_index :: "string \<Rightarrow> bool" where
  "is_array_index k =
     (k \<noteq> [] \<and> list_all is_digit k \<and> (hd k = CHR ''0'' \<longrightarrow> k = ''0'') \<and> index_value k < 2 ^ 32 - 1)"

fun insert_index :: "(string \<times> 'v) list \<Rightarrow> string \<Rightarrow> 'v \<Rightarrow> (string \<times> 'v) list" where
  "insert_index [] k v = [(k, v)]"
| "insert_index ((k', v') # obj) k v =
     (if is_array_index k' \<and> index_value k' < index_value k then (k', v') # insert_index obj k v
      else (k, v) # (k', v') # obj)"

definition object_set :: "(string \<times> 'v) list \<Rightarrow> string \<Rightarrow> 'v \<Rightarrow> (string \<times> 'v) list" where
  "object_set obj k v =
     (if k = ''__proto__'' then obj
      else if k \<in> set (Object_keys obj) then map (\<lambda>(k', v'). if k' = k then (k', v) else (k', v')) obj
      else if is_array_index k then insert_index obj k v
      else obj @ [(k, v)])"

definition hasOwnProperty :: "(string \<times> 'v) list \<Rightarrow> string \<Rightarrow> js_error + bool" where
  "hasOwnProperty obj k =
     (if ''hasOwnProperty'' \<in> set (Object_keys obj)
      then Inl (TypeError ''hasOwnProperty is not a function'')
      else Inr (k \<in> set (Object_keys obj)))"

section \<open>The program\<close>

definition runLighthouse :: "'w env \<Rightarrow> string \<Rightarrow> device \<Rightarrow> (runner_result, 'w) io" where
  "runLighthouse env url device =
     (let isMobile = (device = Mobile)
      in io_bind (io_call (chromeLauncher_launch env)) (\<lambda>chrome_port.
         io_bind (io_call (lighthouse env url chrome_port
                    \<lparr> formFactor = device,
                      throttling = (if isMobile then ''mobileSlow4G'' else ''desktopDense4G''),
                      screenEmulation = device,
                      emulatedUserAgent = device,
                      output_formats = [''html'', ''json''] \<rparr>)) (\<lambda>runnerResult.
         io_bind (io_update (chrome_kill env chrome_port)) (\<lambda>_.
         io_return runnerResult))))"

definition readUrlsFromFile :: "'w env \<Rightarrow> string \<Rightarrow> ((string \<times> string list) list, 'w) io" where
  "readUrlsFromFile env filePath =
     io_bind (io_readFile env filePath) (\<lambda>data.
     io_lift (JSON_parse_urls env data))"

definition int_toString :: "int \<Rightarrow> string" where
  "int_toString i = (if i < 0 then ''-'' @ decimal (- i) else decimal i)"

definition padStart :: "string \<Rightarrow> nat \<Rightarrow> char \<Rightarrow> string" where
  "padStart s n c = replicate (n - length s) c @ s"

definition getLocalDateTime :: "local_time \<Rightarrow> string" where
  "getLocalDateTime now =
     (let year = getFullYear now;
          month = padStart (int_toString (getMonth now + 1)) 2 (CHR ''0'');
          day = padStart (int_toString (getDate now)) 2 (CHR ''0'');
          hours = padStart (int_toString (getHours now)) 2 (CHR ''0'');
          minutes = padStart (int_toString (getMinutes now)) 2 (CHR ''0'');
          seconds = padStart (int_toString (getSeconds now)) 2 (CHR ''0'')
      in int_toString year @ ''-'' @ month @ ''-'' @ day @ ''_'' @ hours @ ''-'' @ minutes @ ''-'' @ seconds)"

definition saveResult ::
  "'w env \<Rightarrow> string \<Rightarrow> runner_result \<Rightarrow> string \<Rightarrow> string \<Rightarrow> device \<Rightarrow> (string, 'w) io" where
  "saveResult env timestamp runnerResult url country device =
     (let dir = path_join [''results'', country, timestamp, device_name device]
      in io_bind (io_write (Mkdir dir) (fs_mkdir env dir)) (\<lambda>_.
         let jsonFilePath = path_join [dir, fileNameBase url @ ''.json''];
             htmlFilePath = path_join [dir, fileNameBase url @ ''.html''];
             json = JSON_stringify env (lhr runnerResult)
         in io_bind (io_write (WriteFile jsonFilePath json) (fs_writeFile env jsonFilePath json)) (\<lambda>_.
            io_bind (case report_output runnerResult of
                       [] \<Rightarrow> io_lift (Inl (TypeError ''The data argument must be of type string''))
                     | html # _ \<Rightarrow> io_write (WriteFile htmlFilePath html) (fs_writeFile env htmlFilePath html)) (\<lambda>_.
            io_return jsonFilePath))))"

record dir_entry =
  entry_name :: string
  entry_path :: string

record dir_stat = dir_entry +
  mtime :: int

text \<open>
  Lines 79 to 98 of \<^verbatim>\<open>getPreviousResult\<close>: the path of the previous report, or nothing when
  the country's directory has no second snapshot. The \<^verbatim>\<open>stat\<close> calls of \<^verbatim>\<open>Promise.all\<close> are
  taken in the order of the listing.
\<close>

definition previous_snapshot_file ::
  "'w env \<Rightarrow> 'w \<Rightarrow> string \<Rightarrow> string \<Rightarrow> device \<Rightarrow> js_error + string option" where
  "previous_snapshot_file env w url currentFilePath device =
     (let dir = path_dirname currentFilePath;
          timestampDir = path_dirname dir;
          countryDir = path_dirname timestampDir
      in case fs_readdir env w countryDir of
           Inl e \<Rightarrow> Inl e
         | Inr folders \<Rightarrow>
             let timestampDirs =
                   map (\<lambda>d. \<lparr> entry_name = dirent_name d,
                              entry_path = path_join [countryDir, dirent_name d] \<rparr>)
                     (filter isDirectory folders)
             in case array_map
                       (\<lambda>dirStat. case fs_stat_mtime env w (entry_path dirStat) of
                                     Inl e \<Rightarrow> Inl e
                                   | Inr m \<Rightarrow> Inr (dir_entry.extend dirStat \<lparr> mtime = m \<rparr>))
                       timestampDirs of
                  Inl e \<Rightarrow> Inl e
                | Inr stats \<Rightarrow>
                    let stats = sort_key (\<lambda>a. - mtime a) stats;
                        previousTimestampDir =
                          (if 1 < length stats then Some (entry_path (stats ! 1)) else None)
                    in case previousTimestampDir of
                         None \<Rightarrow> Inr None
                       | Some previousTimestampDir \<Rightarrow>
                           if previousTimestampDir = [] then Inr None
                           else
                             let deviceDir = path_join [previousTimestampDir, device_name device];
                                 fileName = fileNameBase url @ ''.json''
                             in Inr (Some (path_join [deviceDir, fileName])))"

text \<open>\<^verbatim>\<open>getPreviousResult\<close>, with the \<^verbatim>\<open>try\<close> and \<^verbatim>\<open>catch\<close> of lines 99 to 104.\<close>

definition getPreviousResult ::
  "'w env \<Rightarrow> string \<Rightarrow> string \<Rightarrow> string \<Rightarrow> device \<Rightarrow> (string option, 'w) io" where
  "getPreviousResult env url currentFilePath country device =
     io_bind (io_read (\<lambda>w. previous_snapshot_file env w url currentFilePath device)) (\<lambda>found.
       case found of
         None \<Rightarrow> io_return None
       | Some previousFilePath \<Rightarrow>
           (\<lambda>s. case io_readFile env previousFilePath s of
                   (Inr data, s') \<Rightarrow> (Inr (Some data), s')
                 | (Inl error, s') \<Rightarrow>
                     if error_code error \<noteq> Some ''ENOENT'' then (Inl error, s')
                     else (Inr None, s')))"

record url_score_differences =
  usd_url :: string
  usd_device :: device
  usd_scoreDifferences :: "score_difference list"

definition toUpperCase :: "string \<Rightarrow> string" where
  "toUpperCase s =
     map (\<lambda>c. case map_of (zip ''abcdefghijklmnopqrstuvwxyz'' ''ABCDEFGHIJKLMNOPQRSTUVWXYZ'') c of
                 None \<Rightarrow> c | Some u \<Rightarrow> u) s"

text \<open>
  A row of the table (lines 112 to 117). A template literal prints the value \<^verbatim>\<open>undefined\<close>
  as the text \<^verbatim>\<open>undefined\<close>.
\<close>

definition table_row :: "score_difference \<Rightarrow> string" where
  "table_row scoreDiff =
     ''<tr>'' @ [CHR 0x0A] @ replicate 20 (CHR '' '') @
     ''<td>'' @ (case Category scoreDiff of None \<Rightarrow> ''undefined'' | Some categoryTitle \<Rightarrow> categoryTitle) @
     ''</td>'' @ [CHR 0x0A] @ replicate 20 (CHR '' '') @
     ''<td>'' @ Previous_Score scoreDiff @ ''</td>'' @ [CHR 0x0A] @ replicate 20 (CHR '' '') @
     ''<td>'' @ Current_Score scoreDiff @ ''</td>'' @ [CHR 0x0A] @ replicate 20 (CHR '' '') @
     ''<td>'' @ Difference scoreDiff @ ''</td>'' @ [CHR 0x0A] @ replicate 18 (CHR '' '') @
     ''</tr>''"

definition generateHTMLTable :: "url_score_differences \<Rightarrow> device \<Rightarrow> string" where
  "generateHTMLTable urlScoreDifferences device =
     ''<h2>'' @ toUpperCase (device_name device) @ '' - URL: '' @ usd_url urlScoreDifferences @ ''</h2>'' @
     ''<table border=\"1\"><tr><th>Category</th><th>Previous Score</th><th>Current Score</th><th>Difference</th></tr>'' @
     concat (map table_row (usd_scoreDifferences urlScoreDifferences)) @
     ''</table>''"

fun replace_dashes :: "string \<Rightarrow> string" where
  "replace_dashes (a # b # cs) =
     (if a = CHR ''-'' \<and> b = CHR ''-'' then cs else a # replace_dashes (b # cs))"
| "replace_dashes cs = cs"

type_synonym all_score_differences = "(string \<times> url_score_differences list) list"

definition push_difference ::
  "all_score_differences \<Rightarrow> string \<Rightarrow> url_score_differences \<Rightarrow> all_score_differences" where
  "push_difference allScoreDifferences country entry =
     map (\<lambda>(k, v). if k = country then (k, v @ [entry]) else (k, v)) allScoreDifferences"

text \<open>The body of the two inner loops (lines 145 to 158).\<close>

definition audit ::
  "'w env \<Rightarrow> string \<Rightarrow> string \<Rightarrow> string \<Rightarrow> device \<Rightarrow> all_score_differences \<Rightarrow>
   (all_score_differences, 'w) io" where
  "audit env timestamp country url device allScoreDifferences =
     io_bind (emit (ConsoleLog (''Running Lighthouse for '' @ url @ '' in '' @ country @ '' on '' @
                      device_name device))) (\<lambda>_.
     io_bind (runLighthouse env url device) (\<lambda>result.
     io_bind (saveResult env timestamp result url country device) (\<lambda>currentFilePath.
     io_bind (getPreviousResult env url currentFilePath country device)
       (\<lambda>previousResultData.
          case previousResultData of
            None \<Rightarrow> io_return allScoreDifferences
          | Some data \<Rightarrow>
              if data = [] then io_return allScoreDifferences
              else
                io_bind (io_lift (JSON_parse_report env data)) (\<lambda>previousResult.
                io_bind (io_lift (calculateScoreDifferences (Number_toString env) previousResult
                                    (lhr result))) (\<lambda>scoreDifferences.
                io_return (push_difference allScoreDifferences country
                             \<lparr> usd_url = url, usd_device = device,
                               usd_scoreDifferences = scoreDifferences \<rparr>)))))))"

text \<open>The body of the loop over the countries (lines 135 to 160).\<close>

definition audit_country ::
  "'w env \<Rightarrow> (string \<times> string list) list \<Rightarrow> string \<Rightarrow> string \<Rightarrow> all_score_differences \<Rightarrow>
   (all_score_differences, 'w) io" where
  "audit_country env urlsObject timestamp country allScoreDifferences =
     io_bind (io_lift (hasOwnProperty urlsObject country)) (\<lambda>configured.
       if \<not> configured
       then io_bind (emit (ConsoleError (''No URLs configured for country: '' @ country))) (\<lambda>_.
            io_return allScoreDifferences)
       else
         let allScoreDifferences = object_set allScoreDifferences country [];
             urls = (case map_of urlsObject country of None \<Rightarrow> [] | Some urls \<Rightarrow> urls)
         in for_each (\<lambda>url. for_each (audit env timestamp country url) [Mobile, Desktop])
              urls allScoreDifferences)"

text \<open>Lines 125 to 161: the configuration, the countries to run, the timestamp, the audits.\<close>

definition main_audits :: "'w env \<Rightarrow> string list \<Rightarrow> (all_score_differences, 'w) io" where
  "main_audits env args =
     io_bind (readUrlsFromFile env ''urls.json'') (\<lambda>urlsObject.
       let allScoreDifferences = [];
           countriesToRun = map replace_dashes args;
           countries = (if countriesToRun \<noteq> [] then countriesToRun else Object_keys urlsObject)
       in io_bind (io_read (\<lambda>w. Inr (getLocalDateTime (Date_now env w)))) (\<lambda>timestamp.
          for_each (audit_country env urlsObject timestamp) countries allScoreDifferences))"

text \<open>Lines 165 to 174: the differences of every country that has some go to the console.\<close>

definition log_differences :: "all_score_differences \<Rightarrow> (unit, 'w) io" where
  "log_differences allScoreDifferences =
     for_each
       (\<lambda>country (_ :: unit).
          case map_of allScoreDifferences country of
            None \<Rightarrow> io_return ()
          | Some differences \<Rightarrow>
              if 0 < length differences
              then io_bind (emit (ConsoleLog (''Score differences for '' @ country @ '':''))) (\<lambda>_.
                   for_each
                     (\<lambda>urlScoreDifferences (_ :: unit).
                        io_bind (emit (ConsoleLog (''URL: '' @ usd_url urlScoreDifferences @ '' on '' @
                                         device_name (usd_device urlScoreDifferences)))) (\<lambda>_.
                        emit (ConsoleTable (usd_scoreDifferences urlScoreDifferences))))
                     differences ())
              else io_return ())
       (Object_keys allScoreDifferences) ()"

definition hasDifferences :: "all_score_differences \<Rightarrow> bool" where
  "hasDifferences allScoreDifferences =
     list_ex (\<lambda>country. case map_of allScoreDifferences country of
                          None \<Rightarrow> False | Some differences \<Rightarrow> 0 < length differences)
       (Object_keys allScoreDifferences)"

definition finalHtml :: "all_score_differences \<Rightarrow> string" where
  "finalHtml allScoreDifferences =
     ''<html><head><title>Lighthouse Score Differences</title></head><body>'' @
     ''<h1>Lighthouse Score Differences</h1>'' @
     concat (map (\<lambda>country.
               case map_of allScoreDifferences country of
                 None \<Rightarrow> []
               | Some differences \<Rightarrow>
                   if 0 < length differences
                   then ''<h2>Country: '' @ country @ ''</h2>'' @
                        concat (map (\<lambda>urlScoreDifferences.
                                  generateHTMLTable urlScoreDifferences (usd_device urlScoreDifferences))
                                differences)
                   else [])
             (Object_keys allScoreDifferences)) @
     ''</body></html>''"

text \<open>Lines 163 to 201: the console report and the summary document.\<close>

definition main_report :: "'w env \<Rightarrow> all_score_differences \<Rightarrow> (unit, 'w) io" where
  "main_report env allScoreDifferences =
     io_bind (log_differences allScoreDifferences) (\<lambda>_.
       if hasDifferences allScoreDifferences
       then
         let html = finalHtml allScoreDifferences
         in io_bind (io_read (\<lambda>w. Inr (getLocalDateTime (Date_now env w)))) (\<lambda>timestamp.
            let summaryDirPath = path_join [''results'', ''summary'']
            in io_bind (io_write (Mkdir summaryDirPath) (fs_mkdir env summaryDirPath)) (\<lambda>_.
               let summaryFilePath = path_join [summaryDirPath, ''summary-'' @ timestamp @ ''.html'']
               in io_bind (io_write (WriteFile summaryFilePath html)
                            (fs_writeFile env summaryFilePath html)) (\<lambda>_.
                  emit (ConsoleLog (''Summary HTML has been saved to '' @ summaryFilePath)))))
       else emit (ConsoleLog ''No score differences to report.''))"

definition main :: "'w env \<Rightarrow> string list \<Rightarrow> (unit, 'w) io" where
  "main env args = io_bind (main_audits env args) (main_report env)"

record 'w outcome =
  exit_code :: nat
  events :: "event list"
  final_world :: 'w

text \<open>Lines 204 to 207: a rejection of \<^verbatim>\<open>main\<close> is printed and the exit code is 1.\<close>

definition invocation :: "'w env \<Rightarrow> string list \<Rightarrow> 'w \<Rightarrow> 'w outcome" where
  "invocation env args w =
     (case main env args \<lparr> world = w, trace = [] \<rparr> of
        (Inr _, s) \<Rightarrow> \<lparr> exit_code = 0, events = trace s, final_world = world s \<rparr>
      | (Inl error, s) \<Rightarrow>
          \<lparr> exit_code = 1, events = trace s @ [ConsoleErrorValue error], final_world = world s \<rparr>)"


section \<open>A scripted environment\<close>

text \<open>
  An environment to run the model in: the configuration has the region \<^verbatim>\<open>us\<close> with one
  URL, the region's directory lists an older snapshot and the current one, every write
  succeeds, every audit returns the same report, and every read of a previous report
  returns \<open>previous\<close>. The world is a counter that each audit and each write advances
  by one; the clock shows it as seconds.
\<close>

definition example_report :: report where
  "example_report = \<lparr>categories = [(''seo'', \<lparr>title = ''SEO'', score = None\<rparr>)]\<rparr>"

definition example_env :: "js_error + string \<Rightarrow> nat env" where
  "example_env previous =
     \<lparr> Date_now = (\<lambda>w. \<lparr> getFullYear = 2024, getMonth = 0, getDate = 1, getHours = 0,
                             getMinutes = 0, getSeconds = int w \<rparr>),
       fs_readFile = (\<lambda>w p.
         if p = ''urls.json'' then Inr ''{\"us\":[\"https://example.com\"]}'' else previous),
       fs_readdir = (\<lambda>w p.
         if p = ''results/us''
         then Inr [\<lparr>dirent_name = ''2023-12-31_00-00-00'', isDirectory = True\<rparr>,
                   \<lparr>dirent_name = ''2024-01-01_00-00-00'', isDirectory = True\<rparr>]
         else Inl (SystemError ''ENOENT'')),
       fs_stat_mtime = (\<lambda>w p. if p = ''results/us/2023-12-31_00-00-00'' then Inr 1000 else Inr 2000),
       fs_mkdir = (\<lambda>p w. Inr (w + 1)),
       fs_writeFile = (\<lambda>p c w. Inr (w + 1)),
       chromeLauncher_launch = (\<lambda>w. Inr (9222, w)),
       lighthouse = (\<lambda>url port settings w.
         Inr (\<lparr>lhr = example_report, report_output = [''<html></html>'', ''{}'']\<rparr>, w + 1)),
       chrome_kill = (\<lambda>port w. Inr w),
       JSON_parse_urls = (\<lambda>s. Inr [(''us'', [''https://example.com''])]),
       JSON_parse_report = (\<lambda>s. Inr example_report),
       JSON_stringify = (\<lambda>r. ''{}''),
       Number_toString = (\<lambda>q. []) \<rparr>"

section \<open>Predicates on traces\<close>

text \<open>
  \<open>written_paths\<close> lists the directories and files a trace writes. \<open>fatal_read\<close> holds of
  a file read that failed with a code other than \<^verbatim>\<open>ENOENT\<close>, and \<open>stops_at_fatal_read\<close> of
  a computation that adds at most one such read to the trace, as its last event, and then
  throws its error. \<open>console_only\<close> holds of a computation that only prints.
\<close>

definition written_paths :: "event list \<Rightarrow> string list" where
  "written_paths evs =
     concat (map (\<lambda>ev. case ev of Mkdir p \<Rightarrow> [p] | WriteFile p c \<Rightarrow> [p] | _ \<Rightarrow> []) evs)"

definition stat_succeeds :: "'w env \<Rightarrow> 'w \<Rightarrow> string \<Rightarrow> bool" where
  "stat_succeeds env w p = (case fs_stat_mtime env w p of Inl e \<Rightarrow> False | Inr m \<Rightarrow> True)"

definition fatal_read :: "event \<Rightarrow> bool" where
  "fatal_read ev =
     (case ev of ReadFile p (Inl e) \<Rightarrow> error_code e \<noteq> Some ''ENOENT'' | _ \<Rightarrow> False)"

definition stops_at_fatal_read :: "('a, 'w) io \<Rightarrow> bool" where
  "stops_at_fatal_read m =
     (\<forall>s. \<exists>new. trace (snd (m s)) = trace s @ new \<and>
        (\<not> list_ex fatal_read new \<or>
         (\<exists>pre p e. new = pre @ [ReadFile p (Inl e)] \<and> fst (m s) = Inl e \<and>
            \<not> list_ex fatal_read pre)))"

fun is_console :: "event \<Rightarrow> bool" where
  "is_console (ConsoleLog m) = True"
| "is_console (ConsoleError m) = True"
| "is_console (ConsoleErrorValue e) = True"
| "is_console (ConsoleTable t) = True"
| "is_console (ReadFile p r) = False"
| "is_console (Mkdir p) = False"
| "is_console (WriteFile p c) = False"

definition console_only :: "('a, 'w) io \<Rightarrow> bool" where
  "console_only m =
     (\<exists>logs x. list_all is_console logs \<and> (\<forall>s. m s = (Inr x, s\<lparr>trace := trace s @ logs\<rparr>)))"

section \<open>Properties of the number model\<close>

lemma pow2_pos: "0 < pow2 e"
  by (simp add: pow2_def)

lemma pow2_diff: "pow2 (e - 52) = pow2 e / 2 ^ 52"
proof -
  have "pow2 e = pow2 (e - 52) * 2 ^ 52"
  proof (cases "0 \<le> e - 52")
    case True
    then have "nat e = nat (e - 52) + 52" by simp
    with True show ?thesis by (simp add: pow2_def power_add)
  next
    case False
    show ?thesis
    proof (cases "0 \<le> e")
      case True
      with False have "nat (52 - e) + nat e = 52" by simp
      then have "(2::rat) ^ 52 = 2 ^ nat (52 - e) * 2 ^ nat e"
        by (metis power_add)
      with True False show ?thesis by (simp add: pow2_def field_simps)
    next
      case neg: False
      then have "nat (52 - e) = nat (- e) + 52" by simp
      with neg False show ?thesis by (simp add: pow2_def power_add)
    qed
  qed
  then show ?thesis by simp
qed

lemma pow2_ilog2_le: assumes "0 < q" shows "pow2 (ilog2 q) \<le> max 1 q"
proof (cases "1 \<le> q")
  case True
  then have pos: "0 < \<lfloor>q\<rfloor>" by linarith
  from bitlen_bounds [OF pos] have b: "2 ^ nat (bitlen \<lfloor>q\<rfloor> - 1) \<le> \<lfloor>q\<rfloor>" by simp
  have "bitlen \<lfloor>q\<rfloor> \<noteq> 0" using pos by (simp add: bitlen_eq_zero_iff)
  then have ge: "0 \<le> bitlen \<lfloor>q\<rfloor> - 1" using bitlen_nonneg [of "\<lfloor>q\<rfloor>"] by linarith
  have "(2::rat) ^ nat (bitlen \<lfloor>q\<rfloor> - 1) = of_int (2 ^ nat (bitlen \<lfloor>q\<rfloor> - 1))" by simp
  also have "\<dots> \<le> of_int \<lfloor>q\<rfloor>" using b by (simp only: of_int_le_iff)
  also have "\<dots> \<le> q" by simp
  finally show ?thesis using True ge by (simp add: ilog2_def pow2_def)
next
  case False
  have "0 \<le> bitlen (\<lceil>1 / q\<rceil> - 1)" by (rule bitlen_nonneg)
  then have "pow2 (ilog2 q) \<le> 1"
    using False by (auto simp: ilog2_def pow2_def)
  then show ?thesis by simp
qed

lemma round_ties_even_bounds:
  "of_int (round_ties_even x) \<le> x + 1 / 2" "x - 1 / 2 \<le> of_int (round_ties_even x)"
  unfolding round_ties_even_def Let_def by (auto; linarith)+

lemma round64_small:
  assumes "\<bar>q\<bar> \<le> 1000"
  shows "\<exists>r. round64 q = Finite r \<and> \<bar>r\<bar> \<le> \<bar>q\<bar> + 1"
proof (cases "q = 0")
  case True
  then show ?thesis by (simp add: round64_def)
next
  case False
  define a where "a = \<bar>q\<bar>"
  define e where "e = max (ilog2 a) (- 1022)"
  define ulp where "ulp = pow2 (e - 52)"
  define r where "r = of_int (round_ties_even (a / ulp)) * ulp"
  have apos: "0 < a" using False by (simp add: a_def)
  have "pow2 e \<le> max 1 a"
  proof (cases "ilog2 a \<le> - 1022")
    case True
    then have "e = - 1022" by (simp add: e_def)
    then have "pow2 e \<le> 1" by (simp add: pow2_def)
    then show ?thesis by simp
  next
    case False
    then have "e = ilog2 a" by (simp add: e_def)
    then show ?thesis using pow2_ilog2_le [OF apos] by simp
  qed
  then have "pow2 e \<le> 1000" using assms by (simp add: a_def)
  then have ulp_le: "ulp \<le> 1" unfolding ulp_def pow2_diff by simp
  have ulp_pos: "0 < ulp" unfolding ulp_def by (rule pow2_pos)
  have "r \<le> (a / ulp + 1 / 2) * ulp"
    unfolding r_def using round_ties_even_bounds(1) [of "a / ulp"] ulp_pos
    by (simp only: mult_le_cancel_right_pos)
  also have "\<dots> = a + ulp / 2" using ulp_pos by (simp add: field_simps)
  finally have r_le: "r \<le> a + 1" using ulp_le by simp
  have "0 \<le> a / ulp" using apos ulp_pos by simp
  then have "0 \<le> round_ties_even (a / ulp)"
    unfolding round_ties_even_def Let_def by (auto; linarith)
  then have r_ge: "0 \<le> r" unfolding r_def using ulp_pos by simp
  have "r < pow2 1024" 
  proof -
    have "r \<le> 1001" using r_le assms by (simp add: a_def)
    also have "\<dots> < (2::rat) ^ 10" by simp
    also have "\<dots> \<le> 2 ^ 1024" by (rule power_increasing) simp_all
    finally show ?thesis by (simp add: pow2_def)
  qed
  then have "round64 q = Finite (if q < 0 then - r else r)"
    using False unfolding round64_def Let_def r_def ulp_def e_def a_def by simp
  moreover have "\<bar>if q < 0 then - r else r\<bar> = r"
    using r_ge by simp
  moreover have "r \<le> \<bar>q\<bar> + 1"
    using r_le unfolding a_def .
  ultimately show ?thesis by simp
qed

lemma round64_0: "round64 0 = Finite 0" by (simp add: round64_def)

lemma pow2_powi: "pow2 e = 2 powi e"
  by (simp add: pow2_def power_int_def inverse_eq_divide power_one_over)


lemma pow2_strict_mono: "e < e' \<Longrightarrow> pow2 e < pow2 e'"
  unfolding pow2_powi by (rule power_int_strict_increasing) simp_all

lemma pow2_nonneg_exp: "0 \<le> e \<Longrightarrow> pow2 e = 2 ^ nat e"
  by (simp add: pow2_def)





lemma is_digit_digit_char: assumes "0 \<le> d" "d < 10" shows "is_digit (digit_char d)"
proof -
  from assms have "d = 0 \<or> d = 1 \<or> d = 2 \<or> d = 3 \<or> d = 4 \<or> d = 5 \<or> d = 6 \<or> d = 7 \<or> d = 8 \<or> d = 9"
    by presburger
  then show ?thesis
    by (elim disjE) (simp_all add: is_digit_def digit_char_def)
qed

lemma digit_char_0: "digit_char 0 = CHR ''0''"
  by (simp add: digit_char_def)


lemma digit_char_not_minus: assumes "0 \<le> d" "d < 10" shows "digit_char d \<noteq> CHR ''-''"
  using is_digit_digit_char [OF assms] by (auto simp: is_digit_def)

lemma decimal_digits: "0 \<le> n \<Longrightarrow> list_all is_digit (decimal n) \<and> decimal n \<noteq> []"
proof (induction n rule: decimal.induct)
  case (1 n)
  show ?case
  proof (cases "n < 10")
    case True
    with 1 show ?thesis by (simp add: decimal.simps [of n] is_digit_digit_char)
  next
    case False
    with 1 have "list_all is_digit (decimal (n div 10))" by simp
    moreover have "is_digit (digit_char (n mod 10))" by (simp add: is_digit_digit_char)
    ultimately show ?thesis using False by (simp add: decimal.simps [of n])
  qed
qed

lemma decimal_small: "n < 10 \<Longrightarrow> decimal n = [digit_char n]"
  by (simp add: decimal.simps [of n])

lemma decimal_step: "10 \<le> n \<Longrightarrow> decimal n = decimal (n div 10) @ [digit_char (n mod 10)]"
  by (simp add: decimal.simps [of n])

lemma div10_ge: "(100::int) \<le> n \<Longrightarrow> 10 \<le> n div 10"
  using zdiv_mono1 [of 100 n 10] by simp

lemma div10_div10: "(n::int) div 10 div 10 = n div 100"
  using zdiv_zmult2_eq [of 10 n 10] by simp

lemma div10_lt: "(n::int) < 100 \<Longrightarrow> n div 10 < 10"
  using zdiv_mono1 [of n 99 10] by simp

lemma decimal_split2:
  assumes "100 \<le> n"
  shows "decimal n = decimal (n div 100) @ [digit_char (n div 10 mod 10), digit_char (n mod 10)]"
proof -
  have a: "decimal n = decimal (n div 10) @ [digit_char (n mod 10)]"
    using assms by (simp add: decimal_step)
  have "10 \<le> n div 10" using assms by (rule div10_ge)
  then have b: "decimal (n div 10) = decimal (n div 10 div 10) @ [digit_char (n div 10 mod 10)]"
    by (rule decimal_step)
  show ?thesis unfolding a b div10_div10 by simp
qed

lemma toFixed_2:
  assumes "\<bar>q\<bar> < 10 ^ 21"
  shows "toFixed toString (Finite q) 2 = fixed2 q"
proof -
  define n where "n = \<lfloor>\<bar>q\<bar> * 100 + 1 / 2\<rfloor>"
  have n0: "0 \<le> n" unfolding n_def by simp
  define m where "m = decimal n"
  define m' where "m' = (if length m \<le> 2 then replicate (3 - length m) (CHR ''0'') @ m else m)"
  have tf: "toFixed toString (Finite q) 2 =
      (if q < 0 then ''-'' else '''') @ take (length m' - 2) m' @ ''.'' @ drop (length m' - 2) m'"
    using assms by (simp add: toFixed_def Let_def m'_def m_def n_def not_le [symmetric])
  have "take (length m' - 2) m' = decimal (n div 100) \<and>
        drop (length m' - 2) m' = [digit_char (n div 10 mod 10), digit_char (n mod 10)]"
  proof -
    consider "n < 10" | "10 \<le> n" "n < 100" | "100 \<le> n" by linarith
    then show ?thesis
    proof cases
      case 1
      then have "m = [digit_char n]" by (simp add: m_def decimal_small)
      then have "m' = [CHR ''0'', CHR ''0'', digit_char n]"
        by (simp add: m'_def numeral_3_eq_3)
      moreover have "n div 100 = 0" "n mod 100 div 10 = 0" "n mod 10 = n"
        using 1 n0 by simp_all
      ultimately show ?thesis by (simp add: decimal_small digit_char_0)
    next
      case 2
      then have "n div 10 < 10" by (simp add: div10_lt)
      then have "m = [digit_char (n div 10), digit_char (n mod 10)]"
        using 2 by (simp add: m_def decimal_step decimal_small)
      then have "m' = [CHR ''0'', digit_char (n div 10), digit_char (n mod 10)]"
        by (simp add: m'_def)
      moreover have "0 \<le> n div 10" using n0 by simp
      moreover have "n div 100 = 0" using 2 n0 by simp
      moreover have "n div 10 mod 10 = n div 10" using \<open>n div 10 < 10\<close> \<open>0 \<le> n div 10\<close> by simp
      ultimately show ?thesis by (simp add: decimal_small digit_char_0)
    next
      case 3
      then have m: "m = decimal (n div 100) @ [digit_char (n div 10 mod 10), digit_char (n mod 10)]"
        by (simp add: m_def decimal_split2)
      have "0 \<le> n div 100" using n0 by simp
      then have "decimal (n div 100) \<noteq> []" by (simp add: decimal_digits)
      then have "\<not> length m \<le> 2" unfolding m by (cases "decimal (n div 100)") simp_all
      then have "m' = m" by (simp add: m'_def)
      then show ?thesis unfolding m by simp
    qed
  qed
  then show ?thesis unfolding tf fixed2_def n_def [symmetric] Let_def by simp
qed


section \<open>Properties of the score differ\<close>

lemma array_map_Inr_iff:
  "array_map f xs = Inr ys \<longleftrightarrow> list_all2 (\<lambda>x y. f x = Inr y) xs ys"
proof (induction xs arbitrary: ys)
  case Nil
  then show ?case by auto
next
  case (Cons x xs)
  show ?case
    by (cases ys) (auto simp: Cons.IH [symmetric] split: sum.splits)
qed


lemma array_map_succeeds:
  "(\<exists>ys. array_map f xs = Inr ys) \<longleftrightarrow> (\<forall>x \<in> set xs. \<exists>y. f x = Inr y)"
proof (induction xs)
  case Nil
  then show ?case by simp
next
  case (Cons x xs)
  then show ?case by (auto split: sum.splits)
qed

lemma property_of_Own_iff: "property_of obj k = Own v \<longleftrightarrow> map_of obj k = Some v"
  by (simp add: property_of_def split: option.splits)

lemma map_of_key: "k \<in> set (Object_keys obj) \<longleftrightarrow> map_of obj k \<noteq> None"
  by (simp add: Object_keys_def map_of_eq_None_iff)

lemma property_of_key:
  assumes "k \<in> set (Object_keys obj)"
  shows "\<exists>v. property_of obj k = Own v"
proof -
  from assms obtain v where "map_of obj k = Some v"
    unfolding map_of_key by blast
  then show ?thesis by (simp add: property_of_def)
qed

lemma property_of_no_key:
  assumes "k \<notin> set (Object_keys obj)"
  shows "property_of obj k = (if k \<in> set Object_prototype then Inherited else Undefined)"
proof -
  from assms have "map_of obj k = None"
    unfolding map_of_key by simp
  then show ?thesis by (simp add: property_of_def)
qed

lemma property_of_defined:
  "property_of obj k \<noteq> Undefined \<longleftrightarrow> k \<in> set (Object_keys obj) \<or> k \<in> set Object_prototype"
proof (cases "k \<in> set (Object_keys obj)")
  case True
  from property_of_key [OF True] True show ?thesis by auto
next
  case False
  from property_of_no_key [OF False] False show ?thesis by simp
qed

lemma property_of_own:
  "distinct (Object_keys obj) \<Longrightarrow> i < length obj \<Longrightarrow> property_of obj (fst (obj ! i)) = Own (snd (obj ! i))"
proof -
  assume d: "distinct (Object_keys obj)" and i: "i < length obj"
  from i have "(fst (obj ! i), snd (obj ! i)) \<in> set obj" by simp
  with d have "map_of obj (fst (obj ! i)) = Some (snd (obj ! i))"
    by (simp add: Object_keys_def)
  then show ?thesis by (simp add: property_of_def)
qed

lemma member_of_succeeds: "(\<exists>v. member_of field p = Inr v) \<longleftrightarrow> p \<noteq> Undefined"
  by (cases p) (simp_all add: member_of_def)

lemma member_of_error:
  "member_of field p = Inl e \<Longrightarrow> e = TypeError ''Cannot read properties of undefined''"
  by (cases p) (simp_all add: member_of_def)

lemma member_of_Undefined:
  "member_of field Undefined = Inl (TypeError ''Cannot read properties of undefined'')"
  by (simp add: member_of_def)


lemma score_difference_of_eq:
  assumes "property_of (categories currentResult) k = Own cc"
    and "member_of score (property_of (categories previousResult) k) = Inr previous"
  shows "score_difference_of toString previousResult currentResult k =
         Inr \<lparr> Category = Some (title cc),
               Previous_Score = toFixed toString (scaled previous) 2,
               Current_Score = toFixed toString (scaled (score cc)) 2,
               Difference = toFixed toString (num_sub (scaled (score cc)) (scaled previous)) 2 \<rparr>"
  using assms by (simp add: score_difference_of_def member_of_def scaled_def Let_def)

lemma score_difference_of_succeeds:
  "(\<exists>d. score_difference_of toString previousResult currentResult k = Inr d) \<longleftrightarrow>
   property_of (categories currentResult) k \<noteq> Undefined \<and>
   property_of (categories previousResult) k \<noteq> Undefined"
  by (cases "property_of (categories currentResult) k"; cases "property_of (categories previousResult) k")
     (simp_all add: score_difference_of_def member_of_def Let_def)


lemma score_difference_of_Inr:
  assumes "score_difference_of toString previousResult currentResult k = Inr d"
    and "property_of (categories currentResult) k = Own cc"
  shows "\<exists>previous. member_of score (property_of (categories previousResult) k) = Inr previous \<and>
           d = \<lparr> Category = Some (title cc),
                 Previous_Score = toFixed toString (scaled previous) 2,
                 Current_Score = toFixed toString (scaled (score cc)) 2,
                 Difference = toFixed toString (num_sub (scaled (score cc)) (scaled previous)) 2 \<rparr>"
proof -
  from assms(1) have "\<exists>d. score_difference_of toString previousResult currentResult k = Inr d"
    by (rule exI)
  then have "property_of (categories previousResult) k \<noteq> Undefined"
    unfolding score_difference_of_succeeds by (rule conjunct2)
  then obtain previous where p: "member_of score (property_of (categories previousResult) k) = Inr previous"
    unfolding member_of_succeeds [symmetric, of _ score] by (elim exE)
  from score_difference_of_eq [OF assms(2) p, of toString] assms(1) p show ?thesis by simp
qed

lemma calculateScoreDifferences_succeeds:
  "(\<exists>ds. calculateScoreDifferences toString previousResult currentResult = Inr ds) \<longleftrightarrow>
   set (Object_keys (categories currentResult)) \<subseteq>
     set (Object_keys (categories previousResult)) \<union> set Object_prototype"
  unfolding calculateScoreDifferences_def array_map_succeeds score_difference_of_succeeds
    property_of_defined
  by auto


lemma calculateScoreDifferences_Inr_nth:
  assumes "calculateScoreDifferences toString previousResult currentResult = Inr ds"
  shows "length ds = length (categories currentResult)"
    and "i < length ds \<Longrightarrow>
         score_difference_of toString previousResult currentResult
           (fst (categories currentResult ! i)) = Inr (ds ! i)"
proof -
  from assms have all2:
    "list_all2 (\<lambda>k d. score_difference_of toString previousResult currentResult k = Inr d)
       (map fst (categories currentResult)) ds"
    by (simp add: calculateScoreDifferences_def array_map_Inr_iff Object_keys_def)
  then show len: "length ds = length (categories currentResult)"
    by (auto dest: list_all2_lengthD)
  assume "i < length ds"
  then show "score_difference_of toString previousResult currentResult
           (fst (categories currentResult ! i)) = Inr (ds ! i)"
    using list_all2_nthD2 [OF all2, of i] len by simp
qed

lemma nth_key: "i < length obj \<Longrightarrow> fst (obj ! i) \<in> set (Object_keys obj)"
  by (simp add: Object_keys_def)

lemma scaled_unit:
  assumes "unit_score s"
  shows "\<exists>p. scaled s = Finite p \<and> \<bar>p\<bar> \<le> 101"
proof -
  from assms consider "s = None" | q where "s = Some (Finite q)" "0 \<le> q" "q \<le> 1"
    by (auto simp: unit_score_def split: option.splits number.splits)
  then show ?thesis
  proof cases
    case 1
    then show ?thesis by (simp add: scaled_def round64_0)
  next
    case 2
    then have "\<bar>q * 100\<bar> \<le> 100" by simp
    then have b: "\<bar>q * 100\<bar> \<le> 1000" by simp
    from round64_small [OF b] obtain r where "round64 (q * 100) = Finite r" "\<bar>r\<bar> \<le> \<bar>q * 100\<bar> + 1"
      by blast
    with \<open>\<bar>q * 100\<bar> \<le> 100\<close> 2 show ?thesis
      by (cases "q = 0") (simp_all add: scaled_def round64_0)
  qed
qed


lemma toFixed_2_small: "\<bar>q\<bar> \<le> 203 \<Longrightarrow> toFixed toString (Finite q) 2 = fixed2 q"
  by (rule toFixed_2) (simp add: order.strict_trans1)

lemma fixed2_0: "fixed2 0 = ''0.00''"
  by (simp add: fixed2_def decimal_small digit_char_def)

lemma floor_numeral_div: "\<lfloor>numeral a / numeral b :: rat\<rfloor> = numeral a div numeral b"
  using floor_divide_of_int_eq [of "numeral a" "numeral b", where ?'a = rat] by simp

lemmas fixed2_eval = fixed2_def Let_def floor_numeral_div decimal_small decimal_step digit_char_def

lemma fixed2_examples:
  "fixed2 80 = ''80.00''" "fixed2 85 = ''85.00''" "fixed2 90 = ''90.00''" "fixed2 5 = ''5.00''"
  by (simp_all add: fixed2_eval)








lemma sub_same: "num_sub (Finite x) (Finite x) = Finite 0"
  by (simp add: round64_0)

lemma toFixed_examples:
  "toFixed toString (Finite 80) 2 = ''80.00''" "toFixed toString (Finite 85) 2 = ''85.00''"
  "toFixed toString (Finite 90) 2 = ''90.00''" "toFixed toString (Finite 5) 2 = ''5.00''"
  "toFixed toString (Finite 0) 2 = ''0.00''"
  by (simp_all add: toFixed_2_small fixed2_examples fixed2_0)


subsection \<open>Categories missing from the previous report\<close>





subsection \<open>Length and order of the differences\<close>

text \<open>
  C5: the differ returns a sequence whenever every category identifier of the current
  report is a category of the previous report or the name of a property inherited from
  \<^verbatim>\<open>Object.prototype\<close>, and every sequence it returns has one entry per category of the
  current report: it is as long as the current report's categories, its titles are the
  titles of these categories in their iteration order, and its \<open>i\<close>-th entry is the
  difference computed for the \<open>i\<close>-th category.
\<close>

theorem calculateScoreDifferences_order:
  assumes "distinct (Object_keys (categories currentResult))"
  shows "(set (Object_keys (categories currentResult)) \<subseteq>
            set (Object_keys (categories previousResult)) \<union> set Object_prototype \<longrightarrow>
            (\<exists>ds. calculateScoreDifferences toString previousResult currentResult = Inr ds)) \<and>
         (\<forall>ds. calculateScoreDifferences toString previousResult currentResult = Inr ds \<longrightarrow>
            length ds = length (categories currentResult) \<and>
            map Category ds = map (\<lambda>kc. Some (title (snd kc))) (categories currentResult) \<and>
            (\<forall>i < length ds.
               score_difference_of toString previousResult currentResult
                 (fst (categories currentResult ! i)) = Inr (ds ! i)))"
proof (intro conjI allI impI)
  assume "set (Object_keys (categories currentResult)) \<subseteq>
            set (Object_keys (categories previousResult)) \<union> set Object_prototype"
  then show "\<exists>ds. calculateScoreDifferences toString previousResult currentResult = Inr ds"
    by (simp add: calculateScoreDifferences_succeeds)
next
  fix ds
  assume r: "calculateScoreDifferences toString previousResult currentResult = Inr ds"
  let ?cs = "categories currentResult"
  note len = calculateScoreDifferences_Inr_nth(1) [OF r]
  note each = calculateScoreDifferences_Inr_nth(2) [OF r]
  have titles: "Category (ds ! i) = Some (title (snd (?cs ! i)))" if "i < length ds" for i
  proof -
    from that len have i: "i < length ?cs" by simp
    have own: "property_of ?cs (fst (?cs ! i)) = Own (snd (?cs ! i))"
      using assms i by (rule property_of_own)
    from score_difference_of_Inr [OF each [OF that] own]
    obtain previous where
      "ds ! i = \<lparr> Category = Some (title (snd (?cs ! i))),
               Previous_Score = toFixed toString (scaled previous) 2,
               Current_Score = toFixed toString (scaled (score (snd (?cs ! i)))) 2,
               Difference = toFixed toString
                 (num_sub (scaled (score (snd (?cs ! i)))) (scaled previous)) 2 \<rparr>"
      by blast
    then show ?thesis by simp
  qed
  show "length ds = length ?cs" by (rule len)
  show "map Category ds = map (\<lambda>kc. Some (title (snd kc))) ?cs"
    using len titles by (simp add: list_eq_iff_nth_eq)
  fix i assume "i < length ds"
  then show "score_difference_of toString previousResult currentResult (fst (?cs ! i)) = Inr (ds ! i)"
    by (rule each)
qed

theorem calculateScoreDifferences_order_witness:
  "\<forall>toString.
     distinct (Object_keys (categories
       \<lparr>categories = [(''seo'', \<lparr>title = ''SEO'', score = None\<rparr>),
                      (''toString'', \<lparr>title = ''To string'', score = None\<rparr>),
                      (''pwa'', \<lparr>title = ''PWA'', score = Some (Finite 1)\<rparr>)]\<rparr>)) \<and>
     (\<exists>ds. calculateScoreDifferences toString
            \<lparr>categories = [(''pwa'', \<lparr>title = ''PWA'', score = None\<rparr>),
                           (''seo'', \<lparr>title = ''SEO'', score = Some (Finite 1)\<rparr>)]\<rparr>
            \<lparr>categories = [(''seo'', \<lparr>title = ''SEO'', score = None\<rparr>),
                           (''toString'', \<lparr>title = ''To string'', score = None\<rparr>),
                           (''pwa'', \<lparr>title = ''PWA'', score = Some (Finite 1)\<rparr>)]\<rparr> = Inr ds \<and>
           length ds = 3 \<and> map Category ds = [Some ''SEO'', Some ''To string'', Some ''PWA''])"
proof
  fix toString
  let ?P = "\<lparr>categories = [(''pwa'', \<lparr>title = ''PWA'', score = None\<rparr>),
                           (''seo'', \<lparr>title = ''SEO'', score = Some (Finite 1)\<rparr>)]\<rparr>"
  let ?C = "\<lparr>categories = [(''seo'', \<lparr>title = ''SEO'', score = None\<rparr>),
                           (''toString'', \<lparr>title = ''To string'', score = None\<rparr>),
                           (''pwa'', \<lparr>title = ''PWA'', score = Some (Finite 1)\<rparr>)]\<rparr>"
  have d: "distinct (Object_keys (categories ?C))" by (simp add: Object_keys_def)
  have s: "set (Object_keys (categories ?C)) \<subseteq> set (Object_keys (categories ?P)) \<union> set Object_prototype"
    by (simp add: Object_keys_def Object_prototype_def)
  note t = calculateScoreDifferences_order [OF d, of ?P toString]
  from conjunct1 [OF t, THEN mp, OF s]
  obtain ds where ds: "calculateScoreDifferences toString ?P ?C = Inr ds" ..
  from conjunct2 [OF t, THEN spec, THEN mp, OF ds]
  have "length ds = 3 \<and> map Category ds = [Some ''SEO'', Some ''To string'', Some ''PWA'']" by simp
  with d ds show "distinct (Object_keys (categories ?C)) \<and>
     (\<exists>ds. calculateScoreDifferences toString ?P ?C = Inr ds \<and>
           length ds = 3 \<and> map Category ds = [Some ''SEO'', Some ''To string'', Some ''PWA''])"
    by (intro conjI exI [of _ ds]) simp_all
qed

subsection \<open>Entries of the differences\<close>

lemma unit_scores_property:
  assumes "unit_scores r" "property_of (categories r) k = Own c"
  shows "unit_score (score c)"
proof -
  from assms(2) have "map_of (categories r) k = Some c" by (simp add: property_of_Own_iff)
  then have "(k, c) \<in> set (categories r)" by (rule map_of_SomeD)
  with assms(1) show ?thesis by (auto simp: unit_scores_def list_all_iff)
qed


lemma difference_of_equal_scores:
  assumes "unit_score s"
  shows "toFixed toString (num_sub (scaled s) (scaled s)) 2 = ''0.00''"
proof -
  from scaled_unit [OF assms] obtain p where "scaled s = Finite p" by auto
  then show ?thesis by (simp add: round64_0 toFixed_2_small fixed2_0)
qed

text \<open>
  C6: for every report whose scores are missing or between 0 and 1, diffing the report
  against itself returns one entry per category, each with the delta \<^verbatim>\<open>0.00\<close>.
\<close>

theorem calculateScoreDifferences_self:
  assumes "unit_scores R"
  shows "\<exists>ds. calculateScoreDifferences toString R R = Inr ds \<and>
              length ds = length (categories R) \<and>
              list_all (\<lambda>d. Difference d = ''0.00'') ds"
proof -
  have "\<exists>ds. calculateScoreDifferences toString R R = Inr ds"
    unfolding calculateScoreDifferences_succeeds by simp
  then obtain ds where ds: "calculateScoreDifferences toString R R = Inr ds" ..
  have "Difference (ds ! i) = ''0.00''" if "i < length ds" for i
  proof -
    let ?k = "fst (categories R ! i)"
    from that calculateScoreDifferences_Inr_nth(1) [OF ds]
    have "?k \<in> set (Object_keys (categories R))" by (simp add: nth_key)
    from property_of_key [OF this]
    obtain cc where cc: "property_of (categories R) ?k = Own cc" ..
    then have p: "member_of score (property_of (categories R) ?k) = Inr (score cc)"
      by (simp add: member_of_def)
    from score_difference_of_eq [OF cc p, of toString] calculateScoreDifferences_Inr_nth(2) [OF ds that]
    have d: "ds ! i = \<lparr> Category = Some (title cc),
                 Previous_Score = toFixed toString (scaled (score cc)) 2,
                 Current_Score = toFixed toString (scaled (score cc)) 2,
                 Difference = toFixed toString (num_sub (scaled (score cc)) (scaled (score cc))) 2 \<rparr>"
      by simp
    have "unit_score (score cc)" using assms cc by (rule unit_scores_property)
    then show ?thesis unfolding d by (simp add: difference_of_equal_scores)
  qed
  then have "list_all (\<lambda>d. Difference d = ''0.00'') ds"
    by (simp add: list_all_length)
  with ds calculateScoreDifferences_Inr_nth(1) [OF ds] show ?thesis by simp
qed

theorem calculateScoreDifferences_self_witness:
  "\<forall>toString.
     unit_scores \<lparr>categories = [(''seo'', \<lparr>title = ''SEO'', score = Some (Finite (1 / 2))\<rparr>),
                                (''pwa'', \<lparr>title = ''PWA'', score = None\<rparr>)]\<rparr> \<and>
     (\<exists>ds. calculateScoreDifferences toString
             \<lparr>categories = [(''seo'', \<lparr>title = ''SEO'', score = Some (Finite (1 / 2))\<rparr>),
                            (''pwa'', \<lparr>title = ''PWA'', score = None\<rparr>)]\<rparr>
             \<lparr>categories = [(''seo'', \<lparr>title = ''SEO'', score = Some (Finite (1 / 2))\<rparr>),
                            (''pwa'', \<lparr>title = ''PWA'', score = None\<rparr>)]\<rparr> = Inr ds \<and>
           length ds = 2 \<and> list_all (\<lambda>d. Difference d = ''0.00'') ds)"
proof
  fix toString
  let ?R = "\<lparr>categories = [(''seo'', \<lparr>title = ''SEO'', score = Some (Finite (1 / 2))\<rparr>),
                            (''pwa'', \<lparr>title = ''PWA'', score = None\<rparr>)]\<rparr>"
  have u: "unit_scores ?R" by (simp add: unit_scores_def unit_score_def)
  from calculateScoreDifferences_self [OF u, of toString]
  have "\<exists>ds. calculateScoreDifferences toString ?R ?R = Inr ds \<and>
           length ds = 2 \<and> list_all (\<lambda>d. Difference d = ''0.00'') ds"
    by (simp add: numeral_2_eq_2)
  with u show "unit_scores ?R \<and> (\<exists>ds. calculateScoreDifferences toString ?R ?R = Inr ds \<and>
           length ds = 2 \<and> list_all (\<lambda>d. Difference d = ''0.00'') ds)" ..
qed







section \<open>Properties of the file names\<close>

lemma replace_scheme_first:
  assumes "\<forall>i < length pre. scheme_match (drop i (pre @ rest)) = None"
    and "scheme_match rest = Some n"
  shows "replace_scheme (pre @ rest) = pre @ drop n rest"
  using assms
proof (induction pre)
  case Nil
  then show ?case by (cases rest) (simp_all add: scheme_match_def starts_with_def)
next
  case (Cons c pre)
  from Cons.prems(1) have "scheme_match (drop 0 ((c # pre) @ rest)) = None" by blast
  then have h: "scheme_match (c # pre @ rest) = None" by simp
  have "\<forall>i < length pre. scheme_match (drop i (pre @ rest)) = None"
  proof (intro allI impI)
    fix i assume "i < length pre"
    then have "Suc i < length (c # pre)" by simp
    with Cons.prems(1) have "scheme_match (drop (Suc i) ((c # pre) @ rest)) = None" by blast
    then show "scheme_match (drop i (pre @ rest)) = None" by simp
  qed
  with Cons.IH Cons.prems(2) have "replace_scheme (pre @ rest) = pre @ drop n rest" by simp
  with h show ?case by simp
qed

lemma replace_scheme_none:
  "\<forall>i < length s. scheme_match (drop i s) = None \<Longrightarrow> replace_scheme s = s"
proof (induction s)
  case Nil
  then show ?case by simp
next
  case (Cons c s)
  from Cons.prems have "scheme_match (drop 0 (c # s)) = None" by blast
  then have h: "scheme_match (c # s) = None" by simp
  have "\<forall>i < length s. scheme_match (drop i s) = None"
  proof (intro allI impI)
    fix i assume "i < length s"
    then have "Suc i < length (c # s)" by simp
    with Cons.prems have "scheme_match (drop (Suc i) (c # s)) = None" by blast
    then show "scheme_match (drop i s) = None" by simp
  qed
  with Cons.IH h show ?case by simp
qed

lemma scheme_match_http: "scheme_match (''http://'' @ r) = Some 7"
  by (simp add: scheme_match_def starts_with_def)

lemma scheme_match_https: "scheme_match (''https://'' @ r) = Some 8"
  by (simp add: scheme_match_def starts_with_def)

lemma replace_scheme_leading:
  "replace_scheme (''http://'' @ r) = r" "replace_scheme (''https://'' @ r) = r"
  using scheme_match_http [of r] scheme_match_https [of r] by simp_all

lemma no_slash_replace_slashes: "CHR ''/'' \<notin> set (replace_slashes s)"
  by (auto simp: replace_slashes_def)

section \<open>Properties of the invocation\<close>

lemma stops_return: "stops_at_fatal_read (io_return x)"
  by (simp add: stops_at_fatal_read_def io_return_def)

lemma stops_lift: "stops_at_fatal_read (io_lift r)"
  by (simp add: stops_at_fatal_read_def io_lift_def)

lemma stops_read: "stops_at_fatal_read (io_read g)"
  by (simp add: stops_at_fatal_read_def io_read_def)

lemma stops_call: "stops_at_fatal_read (io_call g)"
  by (auto simp: stops_at_fatal_read_def io_call_def split: sum.splits prod.splits)

lemma stops_update: "stops_at_fatal_read (io_update g)"
  by (auto simp: stops_at_fatal_read_def io_update_def split: sum.splits)

lemma stops_emit: "\<not> fatal_read ev \<Longrightarrow> stops_at_fatal_read (emit ev)"
  by (simp add: stops_at_fatal_read_def emit_def)

lemma stops_bind:
  assumes m: "stops_at_fatal_read m" and f: "\<And>x. stops_at_fatal_read (f x)"
  shows "stops_at_fatal_read (io_bind m f)"
  unfolding stops_at_fatal_read_def
proof
  fix s
  from m obtain new1 where t1: "trace (snd (m s)) = trace s @ new1"
    and c1: "\<not> list_ex fatal_read new1 \<or>
         (\<exists>pre p e. new1 = pre @ [ReadFile p (Inl e)] \<and> fst (m s) = Inl e \<and>
            \<not> list_ex fatal_read pre)"
    unfolding stops_at_fatal_read_def by blast
  obtain r1 s1 where ms: "m s = (r1, s1)" by (cases "m s")
  show "\<exists>new. trace (snd (io_bind m f s)) = trace s @ new \<and>
        (\<not> list_ex fatal_read new \<or>
         (\<exists>pre p e. new = pre @ [ReadFile p (Inl e)] \<and> fst (io_bind m f s) = Inl e \<and>
            \<not> list_ex fatal_read pre))"
  proof (cases r1)
    case (Inl e)
    with ms have b: "io_bind m f s = (Inl e, s1)" by (simp add: io_bind_def)
    from t1 ms have "trace (snd (io_bind m f s)) = trace s @ new1" by (simp add: b)
    moreover from c1 ms Inl
    have "\<not> list_ex fatal_read new1 \<or>
         (\<exists>pre p e. new1 = pre @ [ReadFile p (Inl e)] \<and> fst (io_bind m f s) = Inl e \<and>
            \<not> list_ex fatal_read pre)"
      by (simp add: b)
    ultimately show ?thesis by blast
  next
    case (Inr x)
    with ms have b: "io_bind m f s = f x s1" by (simp add: io_bind_def)
    from c1 Inr ms have n1: "\<not> list_ex fatal_read new1" by auto
    from f [of x] obtain new2 where t2: "trace (snd (f x s1)) = trace s1 @ new2"
      and c2: "\<not> list_ex fatal_read new2 \<or>
         (\<exists>pre p e. new2 = pre @ [ReadFile p (Inl e)] \<and> fst (f x s1) = Inl e \<and>
            \<not> list_ex fatal_read pre)"
      unfolding stops_at_fatal_read_def by blast
    from t1 ms have t1': "trace s1 = trace s @ new1" by simp
    from c2 show ?thesis
    proof
      assume "\<not> list_ex fatal_read new2"
      with n1 t1' t2 b show ?thesis
        by (intro exI [of _ "new1 @ new2"]) simp
    next
      assume "\<exists>pre p e. new2 = pre @ [ReadFile p (Inl e)] \<and> fst (f x s1) = Inl e \<and>
            \<not> list_ex fatal_read pre"
      then obtain pre p e where "new2 = pre @ [ReadFile p (Inl e)]" "fst (f x s1) = Inl e"
        "\<not> list_ex fatal_read pre" by blast
      with n1 t1' t2 b show ?thesis
        by (intro exI [of _ "new1 @ new2"] conjI disjI2 exI [of _ "new1 @ pre"] exI [of _ p] exI [of _ e])
          simp_all
    qed
  qed
qed

lemma stops_for_each:
  assumes "\<And>x acc. stops_at_fatal_read (body x acc)"
  shows "stops_at_fatal_read (for_each body xs acc)"
proof (induction xs arbitrary: acc)
  case Nil
  show ?case by (simp add: stops_return)
next
  case (Cons x xs)
  show ?case by (simp add: stops_bind assms Cons.IH)
qed

lemma stops_write: "\<not> fatal_read ev \<Longrightarrow> stops_at_fatal_read (io_write ev g)"
  unfolding io_write_def by (intro stops_bind stops_update stops_emit)

lemma stops_readFile: "stops_at_fatal_read (io_readFile env p)"
  unfolding stops_at_fatal_read_def
proof
  fix s
  show "\<exists>new. trace (snd (io_readFile env p s)) = trace s @ new \<and>
        (\<not> list_ex fatal_read new \<or>
         (\<exists>pre pa e. new = pre @ [ReadFile pa (Inl e)] \<and> fst (io_readFile env p s) = Inl e \<and>
            \<not> list_ex fatal_read pre))"
    by (intro exI [of _ "[ReadFile p (fs_readFile env (world s) p)]"])
      (auto simp: io_readFile_def Let_def fatal_read_def split: sum.splits)
qed

lemma fatal_read_simps [simp]:
  "\<not> fatal_read (ConsoleLog m)" "\<not> fatal_read (ConsoleError m)" "\<not> fatal_read (ConsoleErrorValue e)"
  "\<not> fatal_read (ConsoleTable t)" "\<not> fatal_read (Mkdir p)" "\<not> fatal_read (WriteFile p c)"
  "fatal_read (ReadFile p r) \<longleftrightarrow> (\<exists>e. r = Inl e \<and> error_code e \<noteq> Some ''ENOENT'')"
  by (auto simp: fatal_read_def split: sum.splits)

lemma stops_getPreviousResult:
  "stops_at_fatal_read (getPreviousResult env url currentFilePath country device)"
  unfolding getPreviousResult_def
proof (intro stops_bind stops_read)
  fix found :: "string option"
  show "stops_at_fatal_read
          (case found of
             None \<Rightarrow> io_return None
           | Some previousFilePath \<Rightarrow>
               (\<lambda>s. case io_readFile env previousFilePath s of
                       (Inr data, s') \<Rightarrow> (Inr (Some data), s')
                     | (Inl error, s') \<Rightarrow>
                         if error_code error \<noteq> Some ''ENOENT'' then (Inl error, s')
                         else (Inr None, s')))"
  proof (cases found)
    case None
    then show ?thesis by (simp add: stops_return)
  next
    case (Some p)
    have "stops_at_fatal_read
            (\<lambda>s. case io_readFile env p s of
                       (Inr data, s') \<Rightarrow> (Inr (Some data), s')
                     | (Inl error, s') \<Rightarrow>
                         if error_code error \<noteq> Some ''ENOENT'' then (Inl error, s')
                         else (Inr None, s'))"
      unfolding stops_at_fatal_read_def
    proof
      fix s :: "'a run_state"
      show "\<exists>new. trace (snd (case io_readFile env p s of
                       (Inr data, s') \<Rightarrow> (Inr (Some data), s')
                     | (Inl error, s') \<Rightarrow>
                         if error_code error \<noteq> Some ''ENOENT'' then (Inl error, s')
                         else (Inr None, s'))) = trace s @ new \<and>
        (\<not> list_ex fatal_read new \<or>
         (\<exists>pre pa e. new = pre @ [ReadFile pa (Inl e)] \<and>
            fst (case io_readFile env p s of
                       (Inr data, s') \<Rightarrow> (Inr (Some data), s')
                     | (Inl error, s') \<Rightarrow>
                         if error_code error \<noteq> Some ''ENOENT'' then (Inl error, s')
                         else (Inr None, s')) = Inl e \<and>
            \<not> list_ex fatal_read pre))"
        by (intro exI [of _ "[ReadFile p (fs_readFile env (world s) p)]"])
          (auto simp: io_readFile_def Let_def split: sum.splits)
    qed
    with Some show ?thesis by simp
  qed
qed

lemma stops_runLighthouse: "stops_at_fatal_read (runLighthouse env url device)"
  unfolding runLighthouse_def Let_def
  by (intro stops_bind stops_call stops_update stops_return)

lemma stops_readUrlsFromFile: "stops_at_fatal_read (readUrlsFromFile env filePath)"
  unfolding readUrlsFromFile_def
  by (intro stops_bind stops_readFile stops_lift)

lemma stops_saveResult:
  "stops_at_fatal_read (saveResult env timestamp runnerResult url country device)"
  unfolding saveResult_def Let_def
  by (intro stops_bind stops_write stops_return)
    (simp_all add: stops_lift stops_write split: list.split)

lemma stops_audit:
  "stops_at_fatal_read (audit env timestamp country url device allScoreDifferences)"
  unfolding audit_def
  by (intro stops_bind stops_emit stops_runLighthouse stops_saveResult stops_getPreviousResult)
    (simp_all add: stops_return stops_bind stops_lift split: option.split)

lemma stops_audit_country:
  "stops_at_fatal_read (audit_country env urlsObject timestamp country allScoreDifferences)"
  unfolding audit_country_def Let_def
  by (intro stops_bind stops_lift)
    (simp add: stops_bind stops_emit stops_return stops_for_each stops_audit)

lemma stops_main_audits: "stops_at_fatal_read (main_audits env args)"
  unfolding main_audits_def Let_def
  by (intro stops_bind stops_readUrlsFromFile stops_read stops_for_each stops_audit_country)

lemma stops_log_differences: "stops_at_fatal_read (log_differences allScoreDifferences)"
  unfolding log_differences_def
  by (intro stops_for_each)
    (simp add: stops_return stops_bind stops_emit stops_for_each split: option.split)

lemma stops_main_report: "stops_at_fatal_read (main_report env allScoreDifferences)"
  unfolding main_report_def Let_def
  by (intro stops_bind stops_log_differences)
    (simp add: stops_bind stops_read stops_write stops_emit)

lemma stops_main: "stops_at_fatal_read (main env args)"
  unfolding main_def by (intro stops_bind stops_main_audits stops_main_report)

lemma invocation_cases:
  "(\<exists>x. fst (main env args \<lparr>world = w, trace = []\<rparr>) = Inr x \<and>
        exit_code (invocation env args w) = 0 \<and>
        events (invocation env args w) = trace (snd (main env args \<lparr>world = w, trace = []\<rparr>))) \<or>
   (\<exists>e. fst (main env args \<lparr>world = w, trace = []\<rparr>) = Inl e \<and>
        exit_code (invocation env args w) = 1 \<and>
        events (invocation env args w) =
          trace (snd (main env args \<lparr>world = w, trace = []\<rparr>)) @ [ConsoleErrorValue e])"
  by (cases "main env args \<lparr>world = w, trace = []\<rparr>")
    (auto simp: invocation_def split: sum.splits)

lemma fatal_read_aborts:
  assumes ev: "ReadFile p (Inl e) \<in> set (events (invocation env args w))"
    and code: "error_code e \<noteq> Some ''ENOENT''"
  shows "exit_code (invocation env args w) = 1 \<and>
         (\<exists>pre. events (invocation env args w) = pre @ [ReadFile p (Inl e), ConsoleErrorValue e])"
proof -
  let ?s0 = "\<lparr>world = w, trace = []\<rparr> :: 'a run_state"
  let ?r = "main env args ?s0"
  from stops_main [of env args] obtain new where t: "trace (snd ?r) = new"
    and c: "\<not> list_ex fatal_read new \<or>
         (\<exists>pre p e. new = pre @ [ReadFile p (Inl e)] \<and> fst ?r = Inl e \<and>
            \<not> list_ex fatal_read pre)"
    unfolding stops_at_fatal_read_def by (metis append_Nil run_state.select_convs(2))
  have fr: "fatal_read (ReadFile p (Inl e))" using code by simp
  from ev invocation_cases [of env args w] have mem: "ReadFile p (Inl e) \<in> set new"
    using t by auto
  with fr have "list_ex fatal_read new" unfolding list_ex_iff by (rule bexI)
  with c obtain pre p' e' where new: "new = pre @ [ReadFile p' (Inl e')]"
    and r: "fst ?r = Inl e'" and pre: "\<not> list_ex fatal_read pre" by blast
  from mem new pre fr have "ReadFile p (Inl e) = ReadFile p' (Inl e')"
    by (auto simp: list_ex_iff)
  then have eq: "p' = p" "e' = e" by simp_all
  from r invocation_cases [of env args w] t new eq
  have "exit_code (invocation env args w) = 1"
    and "events (invocation env args w) = pre @ [ReadFile p (Inl e), ConsoleErrorValue e]"
    by auto
  then show ?thesis by blast
qed

lemma getPreviousResult_read_fails:
  assumes "previous_snapshot_file env (world s) url currentFilePath device = Inr (Some p)"
    and "fs_readFile env (world s) p = Inl e"
  shows "fst (getPreviousResult env url currentFilePath country device s) =
         (if error_code e = Some ''ENOENT'' then Inr None else Inl e)"
  using assms
  by (simp add: getPreviousResult_def io_bind_def io_read_def io_readFile_def Let_def)

lemma console_only_return: "console_only (io_return x)"
  unfolding console_only_def io_return_def
  by (intro exI [of _ "[]"] exI [of _ x]) simp

lemma console_only_emit: "is_console ev \<Longrightarrow> console_only (emit ev)"
  unfolding console_only_def emit_def
  by (intro exI [of _ "[ev]"] exI [of _ "()"]) simp

lemma console_only_bind:
  assumes "console_only m" "\<And>x. console_only (f x)"
  shows "console_only (io_bind m f)"
proof -
  from assms(1) obtain logs1 x where l1: "list_all is_console logs1"
    and m: "\<And>s. m s = (Inr x, s\<lparr>trace := trace s @ logs1\<rparr>)"
    unfolding console_only_def by blast
  from assms(2) [of x] obtain logs2 y where l2: "list_all is_console logs2"
    and f: "\<And>s. f x s = (Inr y, s\<lparr>trace := trace s @ logs2\<rparr>)"
    unfolding console_only_def by blast
  show ?thesis
    unfolding console_only_def
    by (intro exI [of _ "logs1 @ logs2"] exI [of _ y]) (simp add: l1 l2 io_bind_def m f)
qed

lemma console_only_for_each:
  assumes "\<And>x acc. console_only (body x acc)"
  shows "console_only (for_each body xs acc)"
proof (induction xs arbitrary: acc)
  case Nil
  show ?case by (simp add: console_only_return)
next
  case (Cons x xs)
  show ?case by (simp add: console_only_bind assms Cons.IH)
qed

lemma console_only_log_differences: "console_only (log_differences allScoreDifferences)"
  unfolding log_differences_def
  by (intro console_only_for_each)
    (simp add: console_only_return console_only_bind console_only_emit console_only_for_each
      split: option.split)

lemma log_differences_run:
  "\<exists>logs. list_all is_console logs \<and>
     (\<forall>s. log_differences allScoreDifferences s = (Inr (), s\<lparr>trace := trace s @ logs\<rparr>))"
  using console_only_log_differences [of allScoreDifferences]
  unfolding console_only_def by simp

lemma io_bind_return: "io_bind (io_return x) f = f x"
  by (simp add: io_bind_def io_return_def)

lemma for_each_noop:
  "(\<And>x. x \<in> set xs \<Longrightarrow> body x () = io_return ()) \<Longrightarrow> for_each body xs () = io_return ()"
  by (induction xs) (simp_all add: io_bind_return)

lemma map_of_all_empty:
  assumes "list_all (\<lambda>entry. snd entry = []) obj" "map_of obj k = Some v"
  shows "v = []"
proof -
  from assms(2) have "(k, v) \<in> set obj" by (rule map_of_SomeD)
  with assms(1) show ?thesis by (auto simp: list_all_iff)
qed

lemma log_differences_empty:
  assumes "list_all (\<lambda>entry. snd entry = []) allScoreDifferences"
  shows "log_differences allScoreDifferences = io_return ()"
  unfolding log_differences_def
  by (rule for_each_noop) (auto split: option.split dest: map_of_all_empty [OF assms])

lemma hasDifferences_empty:
  assumes "list_all (\<lambda>entry. snd entry = []) allScoreDifferences"
  shows "\<not> hasDifferences allScoreDifferences"
  unfolding hasDifferences_def list_ex_iff
  by (auto split: option.split dest: map_of_all_empty [OF assms])

lemma main_report_empty:
  assumes "list_all (\<lambda>entry. snd entry = []) allScoreDifferences"
  shows "main_report env allScoreDifferences s =
         (Inr (), s\<lparr>trace := trace s @ [ConsoleLog ''No score differences to report.'']\<rparr>)"
  by (simp add: main_report_def log_differences_empty [OF assms] hasDifferences_empty [OF assms]
      io_bind_return emit_def)

subsection \<open>Paths of plain segments\<close>

lemma split_slash_plain: "CHR ''/'' \<notin> set s \<Longrightarrow> split_slash s = [s]"
  by (induction s) auto

lemma split_slash_append:
  "CHR ''/'' \<notin> set x \<Longrightarrow> split_slash (x @ CHR ''/'' # y) = x # split_slash y"
  by (induction x) auto

lemma no_slash_decimal: "0 \<le> n \<Longrightarrow> CHR ''/'' \<notin> set (decimal n)"
proof -
  assume "0 \<le> n"
  then have "list_all is_digit (decimal n)" by (simp add: decimal_digits)
  then show ?thesis by (auto simp: list_all_iff is_digit_def)
qed

lemma no_slash_int_toString: "CHR ''/'' \<notin> set (int_toString i)"
  by (simp add: int_toString_def no_slash_decimal)

lemma no_slash_padStart: "CHR ''/'' \<notin> set s \<Longrightarrow> CHR ''/'' \<notin> set (padStart s n (CHR ''0''))"
  by (simp add: padStart_def)

lemma no_slash_getLocalDateTime: "CHR ''/'' \<notin> set (getLocalDateTime now)"
  by (simp add: getLocalDateTime_def Let_def no_slash_int_toString no_slash_padStart)

lemma summaryDirPath: "path_join [''results'', ''summary''] = ''results/summary''"
  by (simp add: path_join_def path_normalize_def)

lemma summaryFilePath:
  assumes "CHR ''/'' \<notin> set timestamp"
  shows "path_join [''results/summary'', ''summary-'' @ timestamp @ ''.html''] =
         ''results/summary/summary-'' @ timestamp @ ''.html''"
proof -
  define b where "b = ''summary-'' @ timestamp @ ''.html''"
  define p where "p = ''results/summary/'' @ b"
  have b_ne: "b \<noteq> []" "b \<noteq> ''.''" "b \<noteq> ''..''" by (simp_all add: b_def)
  have nb: "CHR ''/'' \<notin> set b" using assms by (simp add: b_def)
  have p1: "p \<noteq> []" "hd p = CHR ''r''" "last p = CHR ''l''" by (simp_all add: p_def b_def)
  have "split_slash (''results'' @ CHR ''/'' # ''summary'' @ CHR ''/'' # b) =
        ''results'' # split_slash (''summary'' @ CHR ''/'' # b)"
    by (rule split_slash_append) simp
  also have "split_slash (''summary'' @ CHR ''/'' # b) = ''summary'' # split_slash b"
    by (rule split_slash_append) simp
  also have "split_slash b = [b]" using nb by (rule split_slash_plain)
  finally have sp: "split_slash p = [''results'', ''summary'', b]"
    by (simp add: p_def)
  have ns: "normalizeString True [] [''results'', ''summary'', b] = [''results'', ''summary'', b]"
    using b_ne by simp
  have js: "join_slash [''results'', ''summary'', b] = p" by (simp add: p_def)
  have abs: "(hd p = CHR ''/'') = False" "(last p = CHR ''/'') = False" "(p = []) = False"
    using p1 by simp_all
  have pn: "path_normalize p = p"
    unfolding path_normalize_def Let_def abs not_False_eq_True sp ns js by simp
  have j: "join_slash [''results/summary'', b] = p" by (simp add: p_def)
  have "path_join [''results/summary'', b] = p"
    unfolding path_join_def Let_def using b_ne(1) by (simp add: j pn del: join_slash.simps)
  then show ?thesis by (simp add: p_def b_def)
qed

lemmas io_defs = io_bind_def io_read_def io_readFile_def io_lift_def io_return_def io_call_def
  io_update_def io_write_def emit_def

lemmas program_defs = main_audits_def readUrlsFromFile_def audit_country_def hasOwnProperty_def
  object_set_def audit_def runLighthouse_def saveResult_def getPreviousResult_def
  previous_snapshot_file_def push_difference_def Object_keys_def

lemma example_env_simps:
  "Date_now (example_env previous) w =
     \<lparr> getFullYear = 2024, getMonth = 0, getDate = 1, getHours = 0, getMinutes = 0,
       getSeconds = int w \<rparr>"
  "fs_readFile (example_env previous) w p =
     (if p = ''urls.json'' then Inr ''{\"us\":[\"https://example.com\"]}'' else previous)"
  "fs_readdir (example_env previous) w p =
     (if p = ''results/us''
      then Inr [\<lparr>dirent_name = ''2023-12-31_00-00-00'', isDirectory = True\<rparr>,
                \<lparr>dirent_name = ''2024-01-01_00-00-00'', isDirectory = True\<rparr>]
      else Inl (SystemError ''ENOENT''))"
  "fs_stat_mtime (example_env previous) w p =
     (if p = ''results/us/2023-12-31_00-00-00'' then Inr 1000 else Inr 2000)"
  "fs_mkdir (example_env previous) p w = Inr (w + 1)"
  "fs_writeFile (example_env previous) p c w = Inr (w + 1)"
  "chromeLauncher_launch (example_env previous) w = Inr (9222, w)"
  "lighthouse (example_env previous) url port settings w =
     Inr (\<lparr>lhr = example_report, report_output = [''<html></html>'', ''{}'']\<rparr>, w + 1)"
  "chrome_kill (example_env previous) port w = Inr w"
  "JSON_parse_urls (example_env previous) data = Inr [(''us'', [''https://example.com''])]"
  "JSON_parse_report (example_env previous) data = Inr example_report"
  "JSON_stringify (example_env previous) r = ''{}''"
  by (simp_all add: example_env_def)

lemma example_timestamp:
  "getLocalDateTime \<lparr> getFullYear = 2024, getMonth = 0, getDate = 1, getHours = 0,
      getMinutes = 0, getSeconds = 0 \<rparr> = ''2024-01-01_00-00-00''"
  "getLocalDateTime \<lparr> getFullYear = 2024, getMonth = 0, getDate = 1, getHours = 0,
      getMinutes = 0, getSeconds = 8 \<rparr> = ''2024-01-01_00-00-08''"
  by (simp_all add: getLocalDateTime_def int_toString_def padStart_def decimal_small decimal_step
      digit_char_def)

lemma example_differences:
  "calculateScoreDifferences toString example_report example_report =
   Inr [\<lparr>Category = Some ''SEO'', Previous_Score = ''0.00'', Current_Score = ''0.00'',
          Difference = ''0.00''\<rparr>]"
  by (simp add: calculateScoreDifferences_def Object_keys_def score_difference_of_def
      property_of_def member_of_def example_report_def round64_0 toFixed_examples)

lemma example_paths:
  "path_join [''results'', ''us'', ''2024-01-01_00-00-00'', ''mobile''] =
     ''results/us/2024-01-01_00-00-00/mobile''"
  "path_join [''results'', ''us'', ''2024-01-01_00-00-00'', ''desktop''] =
     ''results/us/2024-01-01_00-00-00/desktop''"
  "path_join [''results/us/2024-01-01_00-00-00/mobile'', ''example.com.json''] =
     ''results/us/2024-01-01_00-00-00/mobile/example.com.json''"
  "path_join [''results/us/2024-01-01_00-00-00/mobile'', ''example.com.html''] =
     ''results/us/2024-01-01_00-00-00/mobile/example.com.html''"
  "path_join [''results/us/2024-01-01_00-00-00/desktop'', ''example.com.json''] =
     ''results/us/2024-01-01_00-00-00/desktop/example.com.json''"
  "path_join [''results/us/2024-01-01_00-00-00/desktop'', ''example.com.html''] =
     ''results/us/2024-01-01_00-00-00/desktop/example.com.html''"
  "path_join [''results/us'', ''2023-12-31_00-00-00''] = ''results/us/2023-12-31_00-00-00''"
  "path_join [''results/us'', ''2024-01-01_00-00-00''] = ''results/us/2024-01-01_00-00-00''"
  "path_join [''results/us/2023-12-31_00-00-00'', ''mobile''] =
     ''results/us/2023-12-31_00-00-00/mobile''"
  "path_join [''results/us/2023-12-31_00-00-00'', ''desktop''] =
     ''results/us/2023-12-31_00-00-00/desktop''"
  "path_join [''results/us/2023-12-31_00-00-00/mobile'', ''example.com.json''] =
     ''results/us/2023-12-31_00-00-00/mobile/example.com.json''"
  "path_join [''results/us/2023-12-31_00-00-00/desktop'', ''example.com.json''] =
     ''results/us/2023-12-31_00-00-00/desktop/example.com.json''"
  by (simp_all add: path_join_def path_normalize_def)

lemma example_dirnames:
  "path_dirname (path_dirname (path_dirname
     ''results/us/2024-01-01_00-00-00/mobile/example.com.json'')) = ''results/us''"
  "path_dirname (path_dirname (path_dirname
     ''results/us/2024-01-01_00-00-00/desktop/example.com.json'')) = ''results/us''"
  by (simp_all add: path_dirname_def)

lemma example_fileNameBase: "fileNameBase ''https://example.com'' = ''example.com''"
  by (simp add: fileNameBase_def replace_slashes_def scheme_match_def starts_with_def)

lemma example_saveResult:
  "saveResult (example_env previous) ''2024-01-01_00-00-00''
     \<lparr>lhr = example_report, report_output = [''<html></html>'', ''{}'']\<rparr>
     ''https://example.com'' ''us'' Mobile \<lparr>world = w, trace = t\<rparr> =
   (Inr ''results/us/2024-01-01_00-00-00/mobile/example.com.json'',
    \<lparr>world = w + 3,
      trace = t @
        [Mkdir ''results/us/2024-01-01_00-00-00/mobile'',
         WriteFile ''results/us/2024-01-01_00-00-00/mobile/example.com.json'' ''{}'',
         WriteFile ''results/us/2024-01-01_00-00-00/mobile/example.com.html'' ''<html></html>'']\<rparr>)"
  "saveResult (example_env previous) ''2024-01-01_00-00-00''
     \<lparr>lhr = example_report, report_output = [''<html></html>'', ''{}'']\<rparr>
     ''https://example.com'' ''us'' Desktop \<lparr>world = w, trace = t\<rparr> =
   (Inr ''results/us/2024-01-01_00-00-00/desktop/example.com.json'',
    \<lparr>world = w + 3,
      trace = t @
        [Mkdir ''results/us/2024-01-01_00-00-00/desktop'',
         WriteFile ''results/us/2024-01-01_00-00-00/desktop/example.com.json'' ''{}'',
         WriteFile ''results/us/2024-01-01_00-00-00/desktop/example.com.html'' ''<html></html>'']\<rparr>)"
  by (simp_all add: saveResult_def Let_def io_defs example_env_simps example_paths
      example_fileNameBase)

lemma example_runLighthouse:
  "runLighthouse (example_env previous) url device \<lparr>world = w, trace = t\<rparr> =
   (Inr \<lparr>lhr = example_report, report_output = [''<html></html>'', ''{}'']\<rparr>,
    \<lparr>world = w + 1, trace = t\<rparr>)"
  by (simp add: runLighthouse_def Let_def io_defs example_env_simps)

lemma example_previous_snapshot_file:
  "previous_snapshot_file (example_env previous) w ''https://example.com''
     ''results/us/2024-01-01_00-00-00/mobile/example.com.json'' Mobile =
   Inr (Some ''results/us/2023-12-31_00-00-00/mobile/example.com.json'')"
  "previous_snapshot_file (example_env previous) w ''https://example.com''
     ''results/us/2024-01-01_00-00-00/desktop/example.com.json'' Desktop =
   Inr (Some ''results/us/2023-12-31_00-00-00/desktop/example.com.json'')"
  by (simp_all add: previous_snapshot_file_def Let_def example_dirnames example_env_simps
      example_paths example_fileNameBase dir_entry.extend_def)

lemma example_getPreviousResult:
  "getPreviousResult (example_env previous) ''https://example.com''
     ''results/us/2024-01-01_00-00-00/mobile/example.com.json'' country Mobile
     \<lparr>world = w, trace = t\<rparr> =
   (case previous of
      Inr data \<Rightarrow> Inr (Some data)
    | Inl error \<Rightarrow> if error_code error \<noteq> Some ''ENOENT'' then Inl error else Inr None,
    \<lparr>world = w,
      trace = t @ [ReadFile ''results/us/2023-12-31_00-00-00/mobile/example.com.json'' previous]\<rparr>)"
  "getPreviousResult (example_env previous) ''https://example.com''
     ''results/us/2024-01-01_00-00-00/desktop/example.com.json'' country Desktop
     \<lparr>world = w, trace = t\<rparr> =
   (case previous of
      Inr data \<Rightarrow> Inr (Some data)
    | Inl error \<Rightarrow> if error_code error \<noteq> Some ''ENOENT'' then Inl error else Inr None,
    \<lparr>world = w,
      trace = t @ [ReadFile ''results/us/2023-12-31_00-00-00/desktop/example.com.json'' previous]\<rparr>)"
  by (simp_all add: getPreviousResult_def io_bind_def io_read_def io_readFile_def Let_def
      example_previous_snapshot_file example_env_simps split: sum.splits)

lemma example_audit_with_baseline:
  "audit (example_env (Inr ''{}'')) ''2024-01-01_00-00-00'' ''us'' ''https://example.com'' Mobile
     [(''us'', ds)] \<lparr>world = w, trace = t\<rparr> =
   (Inr [(''us'', ds @
            [\<lparr>usd_url = ''https://example.com'', usd_device = Mobile,
               usd_scoreDifferences =
                 [\<lparr>Category = Some ''SEO'', Previous_Score = ''0.00'', Current_Score = ''0.00'',
                    Difference = ''0.00''\<rparr>]\<rparr>])],
    \<lparr>world = w + 4,
      trace = t @
        [ConsoleLog ''Running Lighthouse for https://example.com in us on mobile'',
         Mkdir ''results/us/2024-01-01_00-00-00/mobile'',
         WriteFile ''results/us/2024-01-01_00-00-00/mobile/example.com.json'' ''{}'',
         WriteFile ''results/us/2024-01-01_00-00-00/mobile/example.com.html'' ''<html></html>'',
         ReadFile ''results/us/2023-12-31_00-00-00/mobile/example.com.json'' (Inr ''{}'')]\<rparr>)"
  "audit (example_env (Inr ''{}'')) ''2024-01-01_00-00-00'' ''us'' ''https://example.com'' Desktop
     [(''us'', ds)] \<lparr>world = w, trace = t\<rparr> =
   (Inr [(''us'', ds @
            [\<lparr>usd_url = ''https://example.com'', usd_device = Desktop,
               usd_scoreDifferences =
                 [\<lparr>Category = Some ''SEO'', Previous_Score = ''0.00'', Current_Score = ''0.00'',
                    Difference = ''0.00''\<rparr>]\<rparr>])],
    \<lparr>world = w + 4,
      trace = t @
        [ConsoleLog ''Running Lighthouse for https://example.com in us on desktop'',
         Mkdir ''results/us/2024-01-01_00-00-00/desktop'',
         WriteFile ''results/us/2024-01-01_00-00-00/desktop/example.com.json'' ''{}'',
         WriteFile ''results/us/2024-01-01_00-00-00/desktop/example.com.html'' ''<html></html>'',
         ReadFile ''results/us/2023-12-31_00-00-00/desktop/example.com.json'' (Inr ''{}'')]\<rparr>)"
  by (simp_all add: audit_def io_bind_def emit_def io_lift_def io_return_def example_runLighthouse
      example_saveResult example_getPreviousResult example_env_simps example_differences
      push_difference_def)

lemma example_audit_without_baseline:
  "audit (example_env (Inl (SystemError ''ENOENT''))) ''2024-01-01_00-00-00'' ''us''
     ''https://example.com'' Mobile acc \<lparr>world = w, trace = t\<rparr> =
   (Inr acc,
    \<lparr>world = w + 4,
      trace = t @
        [ConsoleLog ''Running Lighthouse for https://example.com in us on mobile'',
         Mkdir ''results/us/2024-01-01_00-00-00/mobile'',
         WriteFile ''results/us/2024-01-01_00-00-00/mobile/example.com.json'' ''{}'',
         WriteFile ''results/us/2024-01-01_00-00-00/mobile/example.com.html'' ''<html></html>'',
         ReadFile ''results/us/2023-12-31_00-00-00/mobile/example.com.json''
           (Inl (SystemError ''ENOENT''))]\<rparr>)"
  "audit (example_env (Inl (SystemError ''ENOENT''))) ''2024-01-01_00-00-00'' ''us''
     ''https://example.com'' Desktop acc \<lparr>world = w, trace = t\<rparr> =
   (Inr acc,
    \<lparr>world = w + 4,
      trace = t @
        [ConsoleLog ''Running Lighthouse for https://example.com in us on desktop'',
         Mkdir ''results/us/2024-01-01_00-00-00/desktop'',
         WriteFile ''results/us/2024-01-01_00-00-00/desktop/example.com.json'' ''{}'',
         WriteFile ''results/us/2024-01-01_00-00-00/desktop/example.com.html'' ''<html></html>'',
         ReadFile ''results/us/2023-12-31_00-00-00/desktop/example.com.json''
           (Inl (SystemError ''ENOENT''))]\<rparr>)"
  by (simp_all add: audit_def io_bind_def emit_def io_lift_def io_return_def example_runLighthouse
      example_saveResult example_getPreviousResult)

lemma example_audit_denied:
  "audit (example_env (Inl (SystemError ''EACCES''))) ''2024-01-01_00-00-00'' ''us''
     ''https://example.com'' Mobile acc \<lparr>world = w, trace = t\<rparr> =
   (Inl (SystemError ''EACCES''),
    \<lparr>world = w + 4,
      trace = t @
        [ConsoleLog ''Running Lighthouse for https://example.com in us on mobile'',
         Mkdir ''results/us/2024-01-01_00-00-00/mobile'',
         WriteFile ''results/us/2024-01-01_00-00-00/mobile/example.com.json'' ''{}'',
         WriteFile ''results/us/2024-01-01_00-00-00/mobile/example.com.html'' ''<html></html>'',
         ReadFile ''results/us/2023-12-31_00-00-00/mobile/example.com.json''
           (Inl (SystemError ''EACCES''))]\<rparr>)"
  by (simp add: audit_def io_bind_def emit_def io_lift_def io_return_def example_runLighthouse
      example_saveResult example_getPreviousResult)

lemma io_bind_return_right: "io_bind m io_return = m"
  by (rule ext) (simp add: io_bind_def io_return_def split: prod.splits sum.splits)

lemma for_each_Nil: "for_each body [] = io_return"
  by (rule ext) simp

lemma for_each_single: "for_each body [x] acc = body x acc"
  by (simp add: for_each_Nil io_bind_return_right)

lemma example_main_audits_start:
  "main_audits (example_env previous) [] \<lparr>world = 0, trace = []\<rparr> =
   for_each (audit (example_env previous) ''2024-01-01_00-00-00'' ''us'' ''https://example.com'')
     [Mobile, Desktop] [(''us'', [])]
     \<lparr>world = 0, trace = [ReadFile ''urls.json'' (Inr ''{\"us\":[\"https://example.com\"]}'')]\<rparr>"
  by (simp add: main_audits_def readUrlsFromFile_def audit_country_def hasOwnProperty_def
      object_set_def Object_keys_def Let_def io_bind_def io_readFile_def io_lift_def io_read_def
      example_env_simps example_timestamp for_each_single is_array_index_def is_digit_def
      del: for_each.simps)

lemma example_main_audits_with_baseline:
  "main_audits (example_env (Inr ''{}'')) [] \<lparr>world = 0, trace = []\<rparr> =
   (Inr [(''us'',
          [\<lparr>usd_url = ''https://example.com'', usd_device = Mobile,
             usd_scoreDifferences =
               [\<lparr>Category = Some ''SEO'', Previous_Score = ''0.00'', Current_Score = ''0.00'',
                  Difference = ''0.00''\<rparr>]\<rparr>,
           \<lparr>usd_url = ''https://example.com'', usd_device = Desktop,
             usd_scoreDifferences =
               [\<lparr>Category = Some ''SEO'', Previous_Score = ''0.00'', Current_Score = ''0.00'',
                  Difference = ''0.00''\<rparr>]\<rparr>])],
    \<lparr>world = 8,
      trace =
        [ReadFile ''urls.json'' (Inr ''{\"us\":[\"https://example.com\"]}''),
         ConsoleLog ''Running Lighthouse for https://example.com in us on mobile'',
         Mkdir ''results/us/2024-01-01_00-00-00/mobile'',
         WriteFile ''results/us/2024-01-01_00-00-00/mobile/example.com.json'' ''{}'',
         WriteFile ''results/us/2024-01-01_00-00-00/mobile/example.com.html'' ''<html></html>'',
         ReadFile ''results/us/2023-12-31_00-00-00/mobile/example.com.json'' (Inr ''{}''),
         ConsoleLog ''Running Lighthouse for https://example.com in us on desktop'',
         Mkdir ''results/us/2024-01-01_00-00-00/desktop'',
         WriteFile ''results/us/2024-01-01_00-00-00/desktop/example.com.json'' ''{}'',
         WriteFile ''results/us/2024-01-01_00-00-00/desktop/example.com.html'' ''<html></html>'',
         ReadFile ''results/us/2023-12-31_00-00-00/desktop/example.com.json'' (Inr ''{}'')]\<rparr>)"
  by (simp add: example_main_audits_start io_bind_def io_return_def example_audit_with_baseline)

lemma example_main_audits_without_baseline:
  "main_audits (example_env (Inl (SystemError ''ENOENT''))) [] \<lparr>world = 0, trace = []\<rparr> =
   (Inr [(''us'', [])],
    \<lparr>world = 8,
      trace =
        [ReadFile ''urls.json'' (Inr ''{\"us\":[\"https://example.com\"]}''),
         ConsoleLog ''Running Lighthouse for https://example.com in us on mobile'',
         Mkdir ''results/us/2024-01-01_00-00-00/mobile'',
         WriteFile ''results/us/2024-01-01_00-00-00/mobile/example.com.json'' ''{}'',
         WriteFile ''results/us/2024-01-01_00-00-00/mobile/example.com.html'' ''<html></html>'',
         ReadFile ''results/us/2023-12-31_00-00-00/mobile/example.com.json''
           (Inl (SystemError ''ENOENT'')),
         ConsoleLog ''Running Lighthouse for https://example.com in us on desktop'',
         Mkdir ''results/us/2024-01-01_00-00-00/desktop'',
         WriteFile ''results/us/2024-01-01_00-00-00/desktop/example.com.json'' ''{}'',
         WriteFile ''results/us/2024-01-01_00-00-00/desktop/example.com.html'' ''<html></html>'',
         ReadFile ''results/us/2023-12-31_00-00-00/desktop/example.com.json''
           (Inl (SystemError ''ENOENT''))]\<rparr>)"
  by (simp add: example_main_audits_start io_bind_def io_return_def example_audit_without_baseline)

lemma example_main_audits_denied:
  "main_audits (example_env (Inl (SystemError ''EACCES''))) [] \<lparr>world = 0, trace = []\<rparr> =
   (Inl (SystemError ''EACCES''),
    \<lparr>world = 4,
      trace =
        [ReadFile ''urls.json'' (Inr ''{\"us\":[\"https://example.com\"]}''),
         ConsoleLog ''Running Lighthouse for https://example.com in us on mobile'',
         Mkdir ''results/us/2024-01-01_00-00-00/mobile'',
         WriteFile ''results/us/2024-01-01_00-00-00/mobile/example.com.json'' ''{}'',
         WriteFile ''results/us/2024-01-01_00-00-00/mobile/example.com.html'' ''<html></html>'',
         ReadFile ''results/us/2023-12-31_00-00-00/mobile/example.com.json''
           (Inl (SystemError ''EACCES''))]\<rparr>)"
  by (simp add: example_main_audits_start io_bind_def io_return_def example_audit_denied)

lemma main_report_with_differences:
  assumes h: "hasDifferences allScoreDifferences"
    and mk: "fs_mkdir env ''results/summary'' (world s) = Inr w2"
    and wr: "fs_writeFile env
               (''results/summary/summary-'' @ getLocalDateTime (Date_now env (world s)) @ ''.html'')
               (finalHtml allScoreDifferences) w2 = Inr w3"
  shows "\<exists>logs. list_all is_console logs \<and>
           main_report env allScoreDifferences s =
           (Inr (),
            s\<lparr>world := w3,
              trace := trace s @ logs @
                [Mkdir ''results/summary'',
                 WriteFile (''results/summary/summary-'' @
                             getLocalDateTime (Date_now env (world s)) @ ''.html'')
                   (finalHtml allScoreDifferences),
                 ConsoleLog (''Summary HTML has been saved to '' @ ''results/summary/summary-'' @
                             getLocalDateTime (Date_now env (world s)) @ ''.html'')]\<rparr>)"
proof -
  from log_differences_run [of allScoreDifferences] obtain logs
    where c: "list_all is_console logs"
      and l: "\<And>s :: 'a run_state. log_differences allScoreDifferences s =
                (Inr (), s\<lparr>trace := trace s @ logs\<rparr>)"
    by blast
  let ?ts = "getLocalDateTime (Date_now env (world s))"
  let ?file = "''results/summary/summary-'' @ ?ts @ ''.html''"
  let ?html = "finalHtml allScoreDifferences"
  define s1 where "s1 = s\<lparr>trace := trace s @ logs\<rparr>"
  define s2 where "s2 = s1\<lparr>world := w2, trace := trace s1 @ [Mkdir ''results/summary'']\<rparr>"
  define s3 where "s3 = s2\<lparr>world := w3, trace := trace s2 @ [WriteFile ?file ?html]\<rparr>"
  define s4 where
    "s4 = s3\<lparr>trace := trace s3 @ [ConsoleLog (''Summary HTML has been saved to '' @ ?file)]\<rparr>"
  have w1: "world s1 = world s" by (simp add: s1_def)
  have p: "path_join [''results/summary'', ''summary-'' @ ?ts @ ''.html''] = ?file"
    by (rule summaryFilePath) (rule no_slash_getLocalDateTime)
  have 1: "log_differences allScoreDifferences s = (Inr (), s1)"
    unfolding s1_def by (rule l)
  have 2: "io_read (\<lambda>w. Inr (getLocalDateTime (Date_now env w))) s1 = (Inr ?ts, s1)"
    by (simp add: io_read_def w1)
  have 3: "io_write (Mkdir ''results/summary'') (fs_mkdir env ''results/summary'') s1 = (Inr (), s2)"
    using mk by (simp add: io_write_def io_bind_def io_update_def emit_def s2_def w1)
  have 4: "io_write (WriteFile ?file ?html) (fs_writeFile env ?file ?html) s2 = (Inr (), s3)"
    using wr by (simp add: io_write_def io_bind_def io_update_def emit_def s3_def s2_def)
  have 5: "emit (ConsoleLog (''Summary HTML has been saved to '' @ ?file)) s3 = (Inr (), s4)"
    by (simp add: emit_def s4_def)
  have "main_report env allScoreDifferences s = (Inr (), s4)"
    unfolding main_report_def Let_def summaryDirPath
    by (simp only: io_bind_def 1 2 3 4 5 p h if_True prod.case sum.case)
  moreover have "s4 = s\<lparr>world := w3,
              trace := trace s @ logs @
                [Mkdir ''results/summary'', WriteFile ?file ?html,
                 ConsoleLog (''Summary HTML has been saved to '' @ ?file)]\<rparr>"
    by (simp add: s4_def s3_def s2_def s1_def)
  ultimately show ?thesis using c by auto
qed

subsection \<open>The snapshot selector\<close>

lemma previous_snapshot_file_few:
  assumes rd: "fs_readdir env w (path_dirname (path_dirname (path_dirname currentFilePath))) =
               Inr folders"
    and few: "length (filter isDirectory folders) < 2"
    and st: "list_all
               (\<lambda>d. stat_succeeds env w
                      (path_join [path_dirname (path_dirname (path_dirname currentFilePath)),
                                  dirent_name d]))
               (filter isDirectory folders)"
  shows "previous_snapshot_file env w url currentFilePath device = Inr None"
proof -
  define countryDir where "countryDir = path_dirname (path_dirname (path_dirname currentFilePath))"
  define timestampDirs where
    "timestampDirs = map (\<lambda>d. \<lparr> entry_name = dirent_name d,
                              entry_path = path_join [countryDir, dirent_name d] \<rparr>)
                     (filter isDirectory folders)"
  define f where
    "f = (\<lambda>dirStat. case fs_stat_mtime env w (entry_path dirStat) of
                       Inl e \<Rightarrow> Inl e
                     | Inr m \<Rightarrow> Inr (dir_entry.extend dirStat \<lparr> mtime = m \<rparr>))"
  have "\<forall>x \<in> set timestampDirs. \<exists>y. f x = Inr y"
  proof
    fix x assume "x \<in> set timestampDirs"
    then obtain d where d: "d \<in> set (filter isDirectory folders)"
      and x: "x = \<lparr> entry_name = dirent_name d, entry_path = path_join [countryDir, dirent_name d] \<rparr>"
      unfolding timestampDirs_def by auto
    from st d have "stat_succeeds env w (path_join [countryDir, dirent_name d])"
      unfolding countryDir_def list_all_iff by blast
    then show "\<exists>y. f x = Inr y"
      by (simp add: f_def x stat_succeeds_def split: sum.splits)
  qed
  then obtain stats where stats: "array_map f timestampDirs = Inr stats"
    unfolding array_map_succeeds [symmetric] by blast
  then have "list_all2 (\<lambda>x y. f x = Inr y) timestampDirs stats"
    by (simp add: array_map_Inr_iff)
  then have "length stats = length timestampDirs" by (auto dest: list_all2_lengthD)
  with few have len: "\<not> 1 < length (sort_key (\<lambda>a. - mtime a) stats)"
    by (simp add: timestampDirs_def)
  show ?thesis
    using len
    by (simp add: previous_snapshot_file_def Let_def rd
        stats [unfolded f_def timestampDirs_def countryDir_def])
qed

text \<open>
  C7: when the directory of the region lists fewer than two subdirectories (the snapshots
  of the region) and their \<^verbatim>\<open>stat\<close> calls succeed, the snapshot selector returns absent and
  reads no file.
\<close>

theorem getPreviousResult_fewer_than_two_snapshots:
  assumes "fs_readdir env (world s) (path_dirname (path_dirname (path_dirname currentFilePath))) =
           Inr folders"
    and "length (filter isDirectory folders) < 2"
    and "list_all
           (\<lambda>d. stat_succeeds env (world s)
                  (path_join [path_dirname (path_dirname (path_dirname currentFilePath)),
                              dirent_name d]))
           (filter isDirectory folders)"
  shows "getPreviousResult env url currentFilePath country device s = (Inr None, s)"
  using previous_snapshot_file_few [OF assms, of url device]
  by (simp add: getPreviousResult_def io_bind_def io_read_def io_return_def)

theorem getPreviousResult_fewer_than_two_snapshots_witness:
  "fs_readdir
     (example_env (Inr ''{}'')
        \<lparr>fs_readdir := \<lambda>w p. Inr [\<lparr>dirent_name = ''2024-01-01_00-00-00'', isDirectory = True\<rparr>,
                                  \<lparr>dirent_name = ''notes.txt'', isDirectory = False\<rparr>]\<rparr>)
     (world \<lparr>world = 3, trace = []\<rparr>)
     (path_dirname (path_dirname (path_dirname
        ''results/us/2024-01-01_00-00-00/mobile/example.com.json''))) =
   Inr [\<lparr>dirent_name = ''2024-01-01_00-00-00'', isDirectory = True\<rparr>,
        \<lparr>dirent_name = ''notes.txt'', isDirectory = False\<rparr>] \<and>
   length (filter isDirectory [\<lparr>dirent_name = ''2024-01-01_00-00-00'', isDirectory = True\<rparr>,
        \<lparr>dirent_name = ''notes.txt'', isDirectory = False\<rparr>]) < 2 \<and>
   getPreviousResult
     (example_env (Inr ''{}'')
        \<lparr>fs_readdir := \<lambda>w p. Inr [\<lparr>dirent_name = ''2024-01-01_00-00-00'', isDirectory = True\<rparr>,
                                  \<lparr>dirent_name = ''notes.txt'', isDirectory = False\<rparr>]\<rparr>)
     ''https://example.com'' ''results/us/2024-01-01_00-00-00/mobile/example.com.json'' ''us'' Mobile
     \<lparr>world = 3, trace = []\<rparr> =
   (Inr None, \<lparr>world = 3, trace = []\<rparr>)"
proof -
  let ?folders = "[\<lparr>dirent_name = ''2024-01-01_00-00-00'', isDirectory = True\<rparr>,
        \<lparr>dirent_name = ''notes.txt'', isDirectory = False\<rparr>]"
  let ?env = "example_env (Inr ''{}'') \<lparr>fs_readdir := \<lambda>w p. Inr ?folders\<rparr>"
  let ?cur = "''results/us/2024-01-01_00-00-00/mobile/example.com.json''"
  let ?s = "\<lparr>world = 3 :: nat, trace = []\<rparr>"
  have a: "fs_readdir ?env (world ?s) (path_dirname (path_dirname (path_dirname ?cur))) = Inr ?folders"
    by simp
  have b: "length (filter isDirectory ?folders) < 2" by simp
  have c: "list_all
           (\<lambda>d. stat_succeeds ?env (world ?s)
                  (path_join [path_dirname (path_dirname (path_dirname ?cur)), dirent_name d]))
           (filter isDirectory ?folders)"
    by (simp add: stat_succeeds_def example_env_def)
  from getPreviousResult_fewer_than_two_snapshots [OF a b c, of "''https://example.com''" "''us''" Mobile]
    a b
  show ?thesis by (intro conjI)
qed

text \<open>
  C10: the result of the snapshot selector does not depend on its country argument; the
  directory of the region comes from the path of the current report alone.
\<close>

theorem getPreviousResult_ignores_country:
  "getPreviousResult env url currentFilePath country1 device =
   getPreviousResult env url currentFilePath country2 device"
  by (simp add: getPreviousResult_def)

subsection \<open>Errors while reading the previous report\<close>

text \<open>
  C8: when the read of the previous report file fails, the snapshot selector returns absent
  if the error's code is \<^verbatim>\<open>ENOENT\<close> and throws the error otherwise; and an invocation in
  which a file read fails with another code ends there: the error is printed and the exit
  code is 1.
\<close>

theorem getPreviousResult_only_ENOENT_is_absent:
  "(previous_snapshot_file env (world s) url currentFilePath device = Inr (Some p) \<and>
    fs_readFile env (world s) p = Inl e \<longrightarrow>
      fst (getPreviousResult env url currentFilePath country device s) =
        (if error_code e = Some ''ENOENT'' then Inr None else Inl e)) \<and>
   (ReadFile p' (Inl e') \<in> set (events (invocation env args w)) \<and>
    error_code e' \<noteq> Some ''ENOENT'' \<longrightarrow>
      exit_code (invocation env args w) = 1 \<and>
      (\<exists>pre. events (invocation env args w) = pre @ [ReadFile p' (Inl e'), ConsoleErrorValue e']))"
proof (intro conjI impI)
  assume h: "previous_snapshot_file env (world s) url currentFilePath device = Inr (Some p) \<and>
    fs_readFile env (world s) p = Inl e"
  show "fst (getPreviousResult env url currentFilePath country device s) =
        (if error_code e = Some ''ENOENT'' then Inr None else Inl e)"
    by (rule getPreviousResult_read_fails [OF conjunct1 [OF h] conjunct2 [OF h]])
next
  assume a: "ReadFile p' (Inl e') \<in> set (events (invocation env args w)) \<and>
    error_code e' \<noteq> Some ''ENOENT''"
  from fatal_read_aborts [OF conjunct1 [OF a] conjunct2 [OF a]]
  show "exit_code (invocation env args w) = 1"
    and "\<exists>pre. events (invocation env args w) = pre @ [ReadFile p' (Inl e'), ConsoleErrorValue e']"
    by (rule conjunct1, rule conjunct2)
qed

lemma example_invocation_denied:
  "invocation (example_env (Inl (SystemError ''EACCES''))) [] 0 =
   \<lparr>exit_code = 1,
     events =
        [ReadFile ''urls.json'' (Inr ''{\"us\":[\"https://example.com\"]}''),
         ConsoleLog ''Running Lighthouse for https://example.com in us on mobile'',
         Mkdir ''results/us/2024-01-01_00-00-00/mobile'',
         WriteFile ''results/us/2024-01-01_00-00-00/mobile/example.com.json'' ''{}'',
         WriteFile ''results/us/2024-01-01_00-00-00/mobile/example.com.html'' ''<html></html>'',
         ReadFile ''results/us/2023-12-31_00-00-00/mobile/example.com.json''
           (Inl (SystemError ''EACCES'')),
         ConsoleErrorValue (SystemError ''EACCES'')],
     final_world = 4\<rparr>"
  by (simp add: invocation_def main_def io_bind_def example_main_audits_denied)

theorem getPreviousResult_only_ENOENT_is_absent_witness:
  "previous_snapshot_file (example_env (Inl (SystemError ''EACCES''))) (world \<lparr>world = 3, trace = []\<rparr>)
     ''https://example.com'' ''results/us/2024-01-01_00-00-00/mobile/example.com.json'' Mobile =
     Inr (Some ''results/us/2023-12-31_00-00-00/mobile/example.com.json'') \<and>
   fs_readFile (example_env (Inl (SystemError ''EACCES''))) (world \<lparr>world = 3, trace = []\<rparr>)
     ''results/us/2023-12-31_00-00-00/mobile/example.com.json'' = Inl (SystemError ''EACCES'') \<and>
   fst (getPreviousResult (example_env (Inl (SystemError ''EACCES''))) ''https://example.com''
          ''results/us/2024-01-01_00-00-00/mobile/example.com.json'' ''us'' Mobile
          \<lparr>world = 3, trace = []\<rparr>) = Inl (SystemError ''EACCES'') \<and>
   ReadFile ''results/us/2023-12-31_00-00-00/mobile/example.com.json'' (Inl (SystemError ''EACCES''))
     \<in> set (events (invocation (example_env (Inl (SystemError ''EACCES''))) [] 0)) \<and>
   error_code (SystemError ''EACCES'') \<noteq> Some ''ENOENT'' \<and>
   exit_code (invocation (example_env (Inl (SystemError ''EACCES''))) [] 0) = 1"
proof -
  let ?env = "example_env (Inl (SystemError ''EACCES''))"
  let ?s = "\<lparr>world = 3 :: nat, trace = []\<rparr>"
  let ?p = "''results/us/2023-12-31_00-00-00/mobile/example.com.json''"
  let ?cur = "''results/us/2024-01-01_00-00-00/mobile/example.com.json''"
  note t = getPreviousResult_only_ENOENT_is_absent
    [of ?env ?s "''https://example.com''" ?cur Mobile ?p "SystemError ''EACCES''" "''us''"
        ?p "SystemError ''EACCES''" "[]" 0]
  have a: "previous_snapshot_file ?env (world ?s) ''https://example.com'' ?cur Mobile = Inr (Some ?p)"
    by (rule example_previous_snapshot_file)
  have b: "fs_readFile ?env (world ?s) ?p = Inl (SystemError ''EACCES'')"
    by (simp add: example_env_simps)
  have c: "ReadFile ?p (Inl (SystemError ''EACCES'')) \<in> set (events (invocation ?env [] 0))"
    by (simp add: example_invocation_denied)
  have d: "error_code (SystemError ''EACCES'') \<noteq> Some ''ENOENT''" by simp
  from conjunct1 [OF t, THEN mp, OF conjI [OF a b]] d
  have r1: "fst (getPreviousResult ?env ''https://example.com'' ?cur ''us'' Mobile ?s) =
            Inl (SystemError ''EACCES'')" by simp
  from conjunct2 [OF t, THEN mp, OF conjI [OF c d]]
  have r2: "exit_code (invocation ?env [] 0) = 1" by (rule conjunct1)
  from a b r1 c d r2 show ?thesis by (intro conjI)
qed

subsection \<open>Nothing to compare\<close>

text \<open>
  C9: when the audits of an invocation end with no score differences for any region, the
  invocation prints \<^verbatim>\<open>No score differences to report.\<close> and exits with code 0; after the
  audits it does nothing else, so no summary document is written.
\<close>

theorem invocation_without_differences:
  assumes "main_audits env args \<lparr>world = w, trace = []\<rparr> = (Inr allScoreDifferences, s)"
    and "list_all (\<lambda>entry. snd entry = []) allScoreDifferences"
  shows "invocation env args w =
         \<lparr> exit_code = 0,
           events = trace s @ [ConsoleLog ''No score differences to report.''],
           final_world = world s \<rparr>"
  using assms(1) main_report_empty [OF assms(2), of env s]
  by (simp add: invocation_def main_def io_bind_def)

theorem invocation_without_differences_witness:
  "main_audits (example_env (Inl (SystemError ''ENOENT''))) [] \<lparr>world = 0, trace = []\<rparr> =
   (Inr [(''us'', [])],
    \<lparr>world = 8,
      trace =
        [ReadFile ''urls.json'' (Inr ''{\"us\":[\"https://example.com\"]}''),
         ConsoleLog ''Running Lighthouse for https://example.com in us on mobile'',
         Mkdir ''results/us/2024-01-01_00-00-00/mobile'',
         WriteFile ''results/us/2024-01-01_00-00-00/mobile/example.com.json'' ''{}'',
         WriteFile ''results/us/2024-01-01_00-00-00/mobile/example.com.html'' ''<html></html>'',
         ReadFile ''results/us/2023-12-31_00-00-00/mobile/example.com.json''
           (Inl (SystemError ''ENOENT'')),
         ConsoleLog ''Running Lighthouse for https://example.com in us on desktop'',
         Mkdir ''results/us/2024-01-01_00-00-00/desktop'',
         WriteFile ''results/us/2024-01-01_00-00-00/desktop/example.com.json'' ''{}'',
         WriteFile ''results/us/2024-01-01_00-00-00/desktop/example.com.html'' ''<html></html>'',
         ReadFile ''results/us/2023-12-31_00-00-00/desktop/example.com.json''
           (Inl (SystemError ''ENOENT''))]\<rparr>) \<and>
   list_all (\<lambda>entry. snd entry = []) [(''us'', [] :: url_score_differences list)] \<and>
   exit_code (invocation (example_env (Inl (SystemError ''ENOENT''))) [] 0) = 0 \<and>
   last (events (invocation (example_env (Inl (SystemError ''ENOENT''))) [] 0)) =
     ConsoleLog ''No score differences to report.'' \<and>
   written_paths (events (invocation (example_env (Inl (SystemError ''ENOENT''))) [] 0)) =
     [''results/us/2024-01-01_00-00-00/mobile'',
      ''results/us/2024-01-01_00-00-00/mobile/example.com.json'',
      ''results/us/2024-01-01_00-00-00/mobile/example.com.html'',
      ''results/us/2024-01-01_00-00-00/desktop'',
      ''results/us/2024-01-01_00-00-00/desktop/example.com.json'',
      ''results/us/2024-01-01_00-00-00/desktop/example.com.html'']"
proof -
  have b: "list_all (\<lambda>entry. snd entry = []) [(''us'', [] :: url_score_differences list)]"
    by simp
  note t = invocation_without_differences [OF example_main_audits_without_baseline b]
  have "exit_code (invocation (example_env (Inl (SystemError ''ENOENT''))) [] 0) = 0"
    "last (events (invocation (example_env (Inl (SystemError ''ENOENT''))) [] 0)) =
       ConsoleLog ''No score differences to report.''"
    "written_paths (events (invocation (example_env (Inl (SystemError ''ENOENT''))) [] 0)) =
     [''results/us/2024-01-01_00-00-00/mobile'',
      ''results/us/2024-01-01_00-00-00/mobile/example.com.json'',
      ''results/us/2024-01-01_00-00-00/mobile/example.com.html'',
      ''results/us/2024-01-01_00-00-00/desktop'',
      ''results/us/2024-01-01_00-00-00/desktop/example.com.json'',
      ''results/us/2024-01-01_00-00-00/desktop/example.com.html'']"
    unfolding t by (simp_all add: written_paths_def)
  with example_main_audits_without_baseline b show ?thesis by (intro conjI)
qed

subsection \<open>The summary document\<close>

lemma written_paths_append: "written_paths (xs @ ys) = written_paths xs @ written_paths ys"
  by (simp add: written_paths_def)

lemma written_paths_console: "list_all is_console logs \<Longrightarrow> written_paths logs = []"
proof (induction logs)
  case Nil
  show ?case by (simp add: written_paths_def)
next
  case (Cons ev logs)
  then have "is_console ev" "written_paths logs = []" by simp_all
  then show ?case by (cases ev) (simp_all add: written_paths_def)
qed

lemma example_hasDifferences:
  "hasDifferences [(''us'', [a, b])]"
  by (simp add: hasDifferences_def Object_keys_def)

text \<open>
  C2, as stated, fails. In the scripted environment the clock reads 00:00:00 when the
  invocation starts and 00:00:08 when the audits are done: the snapshot directories are
  keyed by \<^verbatim>\<open>2024-01-01_00-00-00\<close>, the summary is written to
  \<^verbatim>\<open>results/summary/summary-2024-01-01_00-00-08.html\<close>.
\<close>

theorem summary_timestamp_is_not_the_snapshot_timestamp:
  "written_paths (events (invocation (example_env (Inr ''{}'')) [] 0)) =
     [''results/us/2024-01-01_00-00-00/mobile'',
      ''results/us/2024-01-01_00-00-00/mobile/example.com.json'',
      ''results/us/2024-01-01_00-00-00/mobile/example.com.html'',
      ''results/us/2024-01-01_00-00-00/desktop'',
      ''results/us/2024-01-01_00-00-00/desktop/example.com.json'',
      ''results/us/2024-01-01_00-00-00/desktop/example.com.html'',
      ''results/summary'',
      ''results/summary/summary-2024-01-01_00-00-08.html''] \<and>
   ''results/summary/summary-2024-01-01_00-00-00.html'' \<notin>
     set (written_paths (events (invocation (example_env (Inr ''{}'')) [] 0)))"
proof -
  let ?env = "example_env (Inr ''{}'')"
  let ?acc = "[(''us'',
          [\<lparr>usd_url = ''https://example.com'', usd_device = Mobile,
             usd_scoreDifferences =
               [\<lparr>Category = Some ''SEO'', Previous_Score = ''0.00'', Current_Score = ''0.00'',
                  Difference = ''0.00''\<rparr>]\<rparr>,
           \<lparr>usd_url = ''https://example.com'', usd_device = Desktop,
             usd_scoreDifferences =
               [\<lparr>Category = Some ''SEO'', Previous_Score = ''0.00'', Current_Score = ''0.00'',
                  Difference = ''0.00''\<rparr>]\<rparr>])]"
  obtain s where a: "main_audits ?env [] \<lparr>world = 0, trace = []\<rparr> = (Inr ?acc, s)"
    and w: "world s = 8"
    and t: "written_paths (trace s) =
     [''results/us/2024-01-01_00-00-00/mobile'',
      ''results/us/2024-01-01_00-00-00/mobile/example.com.json'',
      ''results/us/2024-01-01_00-00-00/mobile/example.com.html'',
      ''results/us/2024-01-01_00-00-00/desktop'',
      ''results/us/2024-01-01_00-00-00/desktop/example.com.json'',
      ''results/us/2024-01-01_00-00-00/desktop/example.com.html'']"
    by (simp add: example_main_audits_with_baseline written_paths_def)
  have ts: "getLocalDateTime (Date_now ?env (world s)) = ''2024-01-01_00-00-08''"
    by (simp add: w example_env_simps example_timestamp)
  have mk: "fs_mkdir ?env ''results/summary'' (world s) = Inr 9"
    by (simp add: w example_env_simps)
  have wr: "fs_writeFile ?env
               (''results/summary/summary-'' @ getLocalDateTime (Date_now ?env (world s)) @ ''.html'')
               (finalHtml ?acc) 9 = Inr 10"
    by (simp add: example_env_simps)
  from main_report_with_differences [OF example_hasDifferences mk wr]
  obtain logs where c: "list_all is_console logs"
    and r: "main_report ?env ?acc s =
           (Inr (),
            s\<lparr>world := 10,
              trace := trace s @ logs @
                [Mkdir ''results/summary'',
                 WriteFile (''results/summary/summary-'' @
                             getLocalDateTime (Date_now ?env (world s)) @ ''.html'')
                   (finalHtml ?acc),
                 ConsoleLog (''Summary HTML has been saved to '' @ ''results/summary/summary-'' @
                             getLocalDateTime (Date_now ?env (world s)) @ ''.html'')]\<rparr>)"
    by blast
  have "events (invocation ?env [] 0) = trace s @ logs @
                [Mkdir ''results/summary'',
                 WriteFile (''results/summary/summary-'' @
                             getLocalDateTime (Date_now ?env (world s)) @ ''.html'')
                   (finalHtml ?acc),
                 ConsoleLog (''Summary HTML has been saved to '' @ ''results/summary/summary-'' @
                             getLocalDateTime (Date_now ?env (world s)) @ ''.html'')]"
    by (simp add: invocation_def main_def io_bind_def a r)
  then have "written_paths (events (invocation ?env [] 0)) =
     written_paths (trace s) @ [''results/summary'', ''results/summary/summary-2024-01-01_00-00-08.html'']"
    unfolding ts by (simp add: written_paths_append written_paths_console [OF c])
       (simp add: written_paths_def)
  then have p: "written_paths (events (invocation ?env [] 0)) =
     [''results/us/2024-01-01_00-00-00/mobile'',
      ''results/us/2024-01-01_00-00-00/mobile/example.com.json'',
      ''results/us/2024-01-01_00-00-00/mobile/example.com.html'',
      ''results/us/2024-01-01_00-00-00/desktop'',
      ''results/us/2024-01-01_00-00-00/desktop/example.com.json'',
      ''results/us/2024-01-01_00-00-00/desktop/example.com.html'',
      ''results/summary'',
      ''results/summary/summary-2024-01-01_00-00-08.html'']"
    unfolding t by simp
  show ?thesis unfolding p by simp
qed

text \<open>
  C2, amended: when the audits end with score differences and the directory and the file
  can be written, the summary document is written once, after the audits and the console
  report, at \<^verbatim>\<open>results/summary/summary-<timestamp>.html\<close>, where the timestamp is the local
  time read at that moment, after the audits; the only event that follows is the console
  message that names the file.
\<close>

theorem summary_written_once_at_end:
  assumes "main_audits env args s0 = (Inr allScoreDifferences, s)"
    and "hasDifferences allScoreDifferences"
    and "fs_mkdir env ''results/summary'' (world s) = Inr w2"
    and "fs_writeFile env
           (''results/summary/summary-'' @ getLocalDateTime (Date_now env (world s)) @ ''.html'')
           (finalHtml allScoreDifferences) w2 = Inr w3"
  shows "\<exists>logs. list_all is_console logs \<and>
           main env args s0 =
           (Inr (),
            s\<lparr>world := w3,
              trace := trace s @ logs @
                [Mkdir ''results/summary'',
                 WriteFile (''results/summary/summary-'' @
                             getLocalDateTime (Date_now env (world s)) @ ''.html'')
                   (finalHtml allScoreDifferences),
                 ConsoleLog (''Summary HTML has been saved to '' @ ''results/summary/summary-'' @
                             getLocalDateTime (Date_now env (world s)) @ ''.html'')]\<rparr>)"
  using main_report_with_differences [OF assms(2,3,4)] assms(1)
  by (simp add: main_def io_bind_def)

theorem summary_written_once_at_end_witness:
  "hasDifferences
     [(''us'',
       [\<lparr>usd_url = ''https://example.com'', usd_device = Mobile,
          usd_scoreDifferences =
            [\<lparr>Category = Some ''SEO'', Previous_Score = ''0.00'', Current_Score = ''0.00'',
               Difference = ''0.00''\<rparr>]\<rparr>,
        \<lparr>usd_url = ''https://example.com'', usd_device = Desktop,
          usd_scoreDifferences =
            [\<lparr>Category = Some ''SEO'', Previous_Score = ''0.00'', Current_Score = ''0.00'',
               Difference = ''0.00''\<rparr>]\<rparr>])] \<and>
   fst (main_audits (example_env (Inr ''{}'')) [] \<lparr>world = 0, trace = []\<rparr>) =
     Inr [(''us'',
       [\<lparr>usd_url = ''https://example.com'', usd_device = Mobile,
          usd_scoreDifferences =
            [\<lparr>Category = Some ''SEO'', Previous_Score = ''0.00'', Current_Score = ''0.00'',
               Difference = ''0.00''\<rparr>]\<rparr>,
        \<lparr>usd_url = ''https://example.com'', usd_device = Desktop,
          usd_scoreDifferences =
            [\<lparr>Category = Some ''SEO'', Previous_Score = ''0.00'', Current_Score = ''0.00'',
               Difference = ''0.00''\<rparr>]\<rparr>])] \<and>
   world (snd (main_audits (example_env (Inr ''{}'')) [] \<lparr>world = 0, trace = []\<rparr>)) = 8 \<and>
   getLocalDateTime (Date_now (example_env (Inr ''{}'')) 8) = ''2024-01-01_00-00-08'' \<and>
   fst (main (example_env (Inr ''{}'')) [] \<lparr>world = 0, trace = []\<rparr>) = Inr () \<and>
   world (snd (main (example_env (Inr ''{}'')) [] \<lparr>world = 0, trace = []\<rparr>)) = 10 \<and>
   written_paths (drop 11 (trace (snd (main (example_env (Inr ''{}'')) [] \<lparr>world = 0, trace = []\<rparr>)))) =
     [''results/summary'', ''results/summary/summary-2024-01-01_00-00-08.html'']"
proof -
  let ?env = "example_env (Inr ''{}'')"
  let ?acc = "[(''us'',
          [\<lparr>usd_url = ''https://example.com'', usd_device = Mobile,
             usd_scoreDifferences =
               [\<lparr>Category = Some ''SEO'', Previous_Score = ''0.00'', Current_Score = ''0.00'',
                  Difference = ''0.00''\<rparr>]\<rparr>,
           \<lparr>usd_url = ''https://example.com'', usd_device = Desktop,
             usd_scoreDifferences =
               [\<lparr>Category = Some ''SEO'', Previous_Score = ''0.00'', Current_Score = ''0.00'',
                  Difference = ''0.00''\<rparr>]\<rparr>])]"
  let ?s0 = "\<lparr>world = 0 :: nat, trace = []\<rparr>"
  obtain s where a: "main_audits ?env [] ?s0 = (Inr ?acc, s)"
    and w: "world s = 8" and l: "length (trace s) = 11"
    by (simp add: example_main_audits_with_baseline)
  have h: "hasDifferences ?acc" by (rule example_hasDifferences)
  have ts: "getLocalDateTime (Date_now ?env (world s)) = ''2024-01-01_00-00-08''"
    by (simp add: w example_env_simps example_timestamp)
  have mk: "fs_mkdir ?env ''results/summary'' (world s) = Inr 9"
    by (simp add: w example_env_simps)
  have wr: "fs_writeFile ?env
               (''results/summary/summary-'' @ getLocalDateTime (Date_now ?env (world s)) @ ''.html'')
               (finalHtml ?acc) 9 = Inr 10"
    by (simp add: example_env_simps)
  from summary_written_once_at_end [OF a h mk wr]
  obtain logs where c: "list_all is_console logs"
    and r: "main ?env [] ?s0 =
           (Inr (),
            s\<lparr>world := 10,
              trace := trace s @ logs @
                [Mkdir ''results/summary'',
                 WriteFile (''results/summary/summary-'' @
                             getLocalDateTime (Date_now ?env (world s)) @ ''.html'')
                   (finalHtml ?acc),
                 ConsoleLog (''Summary HTML has been saved to '' @ ''results/summary/summary-'' @
                             getLocalDateTime (Date_now ?env (world s)) @ ''.html'')]\<rparr>)"
    by blast
  have r1: "fst (main ?env [] ?s0) = Inr ()" "world (snd (main ?env [] ?s0)) = 10"
    by (simp_all add: r)
  have "drop 11 (trace (snd (main ?env [] ?s0))) = logs @
                [Mkdir ''results/summary'',
                 WriteFile (''results/summary/summary-'' @
                             getLocalDateTime (Date_now ?env (world s)) @ ''.html'')
                   (finalHtml ?acc),
                 ConsoleLog (''Summary HTML has been saved to '' @ ''results/summary/summary-'' @
                             getLocalDateTime (Date_now ?env (world s)) @ ''.html'')]"
    by (simp add: r l)
  then have r2: "written_paths (drop 11 (trace (snd (main ?env [] ?s0)))) =
     [''results/summary'', ''results/summary/summary-2024-01-01_00-00-08.html'']"
    unfolding ts by (simp add: written_paths_append written_paths_console [OF c])
       (simp add: written_paths_def)
  have a1: "fst (main_audits ?env [] ?s0) = Inr ?acc" "world (snd (main_audits ?env [] ?s0)) = 8"
    by (simp_all add: a w)
  have ts': "getLocalDateTime (Date_now ?env 8) = ''2024-01-01_00-00-08''"
    using ts w by simp
  from h a1 ts' r1 r2 show ?thesis by (intro conjI)
qed

subsection \<open>The name of a report file\<close>

text \<open>
  C3, as stated, fails: the scheme is not only stripped where it leads. In
  \<^verbatim>\<open>a.com/?next=http://b.com\<close> the regular expression finds \<^verbatim>\<open>http://\<close> in the query
  and removes it there.
\<close>

theorem fileNameBase_strips_inner_scheme:
  "fileNameBase ''a.com/?next=http://b.com'' = ''a.com_?next=b.com'' \<and>
   spec_urlAsFilename ''a.com/?next=http://b.com'' = ''a.com_?next=http:__b.com'' \<and>
   fileNameBase ''a.com/?next=http://b.com'' \<noteq> spec_urlAsFilename ''a.com/?next=http://b.com''"
  by (simp add: fileNameBase_def spec_urlAsFilename_def replace_slashes_def scheme_match_def
      starts_with_def)

text \<open>
  C3, amended: the mapping removes the first occurrence of \<^verbatim>\<open>http://\<close> or \<^verbatim>\<open>https://\<close> in
  the URL, wherever it stands (the leading prefix when the URL starts with one, nothing
  when there is none), and replaces every \<^verbatim>\<open>/\<close> of the rest with \<^verbatim>\<open>_\<close>; so two URLs that
  differ only in their leading scheme get the same name.
\<close>

theorem fileNameBase_first_occurrence:
  "(scheme_match rest = Some n \<and> (\<forall>i < length pre. scheme_match (drop i (pre @ rest)) = None) \<longrightarrow>
      fileNameBase (pre @ rest) = replace_slashes (pre @ drop n rest)) \<and>
   ((\<forall>i < length url. scheme_match (drop i url) = None) \<longrightarrow>
      fileNameBase url = replace_slashes url) \<and>
   scheme_match (''http://'' @ r) = Some 7 \<and> scheme_match (''https://'' @ r) = Some 8 \<and>
   fileNameBase (''http://'' @ r) = replace_slashes r \<and>
   fileNameBase (''https://'' @ r) = replace_slashes r \<and>
   fileNameBase (''http://'' @ r) = fileNameBase (''https://'' @ r) \<and>
   CHR ''/'' \<notin> set (fileNameBase url) \<and>
   length (replace_slashes s) = length s \<and>
   (\<forall>i < length s. replace_slashes s ! i = (if s ! i = CHR ''/'' then CHR ''_'' else s ! i))"
proof (intro conjI impI allI)
  assume "scheme_match rest = Some n \<and> (\<forall>i < length pre. scheme_match (drop i (pre @ rest)) = None)"
  then have "replace_scheme (pre @ rest) = pre @ drop n rest"
    by (intro replace_scheme_first) simp_all
  then show "fileNameBase (pre @ rest) = replace_slashes (pre @ drop n rest)"
    by (simp add: fileNameBase_def)
next
  assume "\<forall>i < length url. scheme_match (drop i url) = None"
  then have "replace_scheme url = url" by (rule replace_scheme_none)
  then show "fileNameBase url = replace_slashes url" by (simp add: fileNameBase_def)
next
  show "scheme_match (''http://'' @ r) = Some 7" by (rule scheme_match_http)
  show "scheme_match (''https://'' @ r) = Some 8" by (rule scheme_match_https)
  show a: "fileNameBase (''http://'' @ r) = replace_slashes r"
    unfolding fileNameBase_def replace_scheme_leading ..
  show b: "fileNameBase (''https://'' @ r) = replace_slashes r"
    unfolding fileNameBase_def replace_scheme_leading ..
  show "fileNameBase (''http://'' @ r) = fileNameBase (''https://'' @ r)"
    unfolding a b ..
  show "CHR ''/'' \<notin> set (fileNameBase url)"
    unfolding fileNameBase_def by (rule no_slash_replace_slashes)
  show "length (replace_slashes s) = length s" by (simp add: replace_slashes_def)
  show "replace_slashes s ! i = (if s ! i = CHR ''/'' then CHR ''_'' else s ! i)" if "i < length s" for i
    using that by (simp add: replace_slashes_def)
qed

theorem fileNameBase_first_occurrence_witness:
  "scheme_match ''http://b/c'' = Some 7 \<and>
   fileNameBase (''a/'' @ ''http://b/c'') = replace_slashes (''a/'' @ drop 7 ''http://b/c'') \<and>
   fileNameBase (''a/'' @ ''http://b/c'') = ''a_b_c'' \<and>
   fileNameBase ''x.com/a'' = replace_slashes ''x.com/a'' \<and>
   fileNameBase ''x.com/a'' = ''x.com_a'' \<and>
   fileNameBase ''http://x.com/a'' = ''x.com_a'' \<and>
   fileNameBase ''https://x.com/a'' = ''x.com_a''"
proof -
  note t = fileNameBase_first_occurrence
    [of "''http://b/c''" 7 "''a/''" "''x.com/a''" "''x.com/a''" "''x.com/a''"]
  have m: "scheme_match ''http://b/c'' = Some 7"
    by (simp add: scheme_match_def starts_with_def)
  have n: "\<forall>i < length ''a/''. scheme_match (drop i (''a/'' @ ''http://b/c'')) = None"
    by (simp add: less_Suc_eq scheme_match_def starts_with_def)
  have n': "\<forall>i < length ''x.com/a''. scheme_match (drop i ''x.com/a'') = None"
    by (simp add: less_Suc_eq scheme_match_def starts_with_def)
  from t m n have 1: "fileNameBase (''a/'' @ ''http://b/c'') = replace_slashes (''a/'' @ drop 7 ''http://b/c'')"
    by (elim conjE) (erule mp, rule conjI)
  from t n' have 2: "fileNameBase ''x.com/a'' = replace_slashes ''x.com/a''"
    by (elim conjE) (erule mp)
  from t have 3: "fileNameBase (''http://'' @ ''x.com/a'') = replace_slashes ''x.com/a''"
    by (elim conjE)
  from t have 4: "fileNameBase (''https://'' @ ''x.com/a'') = replace_slashes ''x.com/a''"
    by (elim conjE)
  have v: "replace_slashes (''a/'' @ drop 7 ''http://b/c'') = ''a_b_c''"
    "replace_slashes ''x.com/a'' = ''x.com_a''"
    by (simp_all add: replace_slashes_def)
  from m 1 2 3 4 show ?thesis unfolding v by simp
qed

end
